theory Spec2Isabelle
  imports Main "HOL-Library.Word"
begin

unbundle bit_operations_syntax

section \<open>The HCI transport of gatt (linux/linux.go)\<close>

text \<open>
  The file \<^verbatim>\<open>linux.go\<close> holds the host side of the HCI transport: the constructor
  \<^verbatim>\<open>NewHCI\<close>, the read loop \<^verbatim>\<open>mainLoop\<close>, the demultiplexer \<^verbatim>\<open>handlePacket\<close> with its
  three local handlers, and the bring-up sequence \<^verbatim>\<open>ResetDevice\<close>.

  The packages \<^verbatim>\<open>device\<close>, \<^verbatim>\<open>cmd\<close>, \<^verbatim>\<open>event\<close> and \<^verbatim>\<open>l2cap\<close> are collaborators whose code
  is outside this file. Their operations are parameters of the model (the record
  \<open>env\<close>): each takes the state of the world outside this file and returns its result
  with the new state. Every call the code makes, to a collaborator or to one of its own
  handlers, is also written to a trace of events, in program order, so that which calls
  were made, how often and in which order can be stated.
\<close>

subsection \<open>Data\<close>

type_synonym byte = "8 word"

text \<open>\<^verbatim>\<open>type PacketType uint8\<close> and the five HCI packet types.\<close>

type_synonym PacketType = "8 word"

definition ptypeCommandPkt :: PacketType where "ptypeCommandPkt = 0x01"
definition ptypeACLDataPkt :: PacketType where "ptypeACLDataPkt = 0x02"
definition ptypeSCODataPkt :: PacketType where "ptypeSCODataPkt = 0x03"
definition ptypeEventPkt :: PacketType where "ptypeEventPkt = 0x04"
definition ptypeVendorPkt :: PacketType where "ptypeVendorPkt = 0xFF"

text \<open>
  A Go \<^verbatim>\<open>error\<close> is \<open>error option\<close>: \<open>None\<close> is \<^verbatim>\<open>nil\<close>, \<open>Some (Errorf m)\<close> the
  error made by \<^verbatim>\<open>fmt.Errorf(m)\<close> (or any error with message \<open>m\<close>).
\<close>

datatype error = Errorf string

text \<open>
  Pointers and interface values (\<^verbatim>\<open>io.ReadWriteCloser\<close>, \<^verbatim>\<open>*log.Logger\<close>, \<^verbatim>\<open>*cmd.Cmd\<close>,
  \<^verbatim>\<open>*event.Event\<close>, \<^verbatim>\<open>*l2cap.L2CAP\<close>) are references; \<open>NilRef\<close> is Go's \<^verbatim>\<open>nil\<close>.
\<close>

datatype ref = NilRef | Ref nat

text \<open>\<^verbatim>\<open>type HCI struct { dev; logger; cmd; evt; l2c }\<close>\<close>

record HCI =
  dev :: ref
  logger :: ref
  cmd :: ref
  evt :: ref
  l2c :: ref

text \<open>
  The command parameters used by the two reset sequences. The struct types are declared
  in package \<^verbatim>\<open>cmd\<close>; here each is a constructor that carries the field values of the
  composite literal, in the order of the struct's fields as the literals name them.
\<close>

datatype cmdParam =
    Reset
  | SetEventMask nat
  | LESetEventMask nat
  | WriteSimplePairingMode nat
  | WriteLEHostSupported nat nat
  | WriteInquiryMode nat
  | WritePageScanType nat
  | WriteInquiryScanType nat
  | WriteClassOfDevice "byte list"
  | WritePageTimeout nat
  | WriteDefaultLinkPolicy nat
  | HostBufferSize nat nat nat nat

text \<open>\<^verbatim>\<open>type cmdSeq struct { cp cmd.CmdParam; exp []byte }\<close>\<close>

record cmdSeq =
  cp :: cmdParam
  exp :: "byte list"

text \<open>
  The method values handed to \<^verbatim>\<open>e.HandleEvent\<close>: a method of package \<^verbatim>\<open>l2cap\<close> or
  \<^verbatim>\<open>cmd\<close> bound to its receiver.
\<close>

datatype handler =
    L2C_HandleLEMeta ref
  | L2C_HandleDisconnectionComplete ref
  | L2C_HandleNumberOfCompletedPkts ref
  | Cmd_HandleComplete ref
  | Cmd_HandleStatus ref

text \<open>The four \<^verbatim>\<open>log.Printf\<close> calls of the file, by their format and arguments.\<close>

datatype logmsg =
    FailedToRead error                \<comment> \<open>\<^verbatim>\<open>"Failed to Read: %s", err\<close>\<close>
  | DevRead0Byte                      \<comment> \<open>\<^verbatim>\<open>"Dev Read 0 byte. fd had been closed"\<close>\<close>
  | HciError error "byte list"        \<comment> \<open>\<^verbatim>\<open>"hci: %s, [ % X]", err, b\<close>\<close>
  | UnmanagedCmd "16 word"            \<comment> \<open>\<^verbatim>\<open>"unmanaged cmd: %s(0x%04X)\n", cmd.Opcode(op), op\<close>\<close>

text \<open>
  The trace. One event for each call the file makes: the collaborators' operations, its
  own three handlers, the goroutine it starts for each frame, and the log.
  \<open>CallRead\<close> carries what the read returned.
\<close>

datatype event =
    CallNewSocket int
  | CallNewCmd ref ref
  | CallNewL2CAP ref ref ref int
  | CallNewEvent ref
  | CallHandleEvent ref int handler
  | CallRead ref int "error option"
  | GoHandlePacket "byte list"
  | CallHandleCmd "byte list"
  | CallHandleL2CAP ref "byte list"
  | CallHandleSCO "byte list"
  | CallDispatch ref "byte list"
  | CallHandleVendor "byte list"
  | CallSendAndCheckResp ref cmdParam "byte list"
  | LogPrintf logmsg
  | LogFatalf PacketType "byte list"  \<comment> \<open>\<^verbatim>\<open>"Unknown Event: 0x%02X [ % X ]\n", t, b\<close>\<close>

text \<open>
  How a call ends: it returns a value, it panics (an index out of range, a negative
  length for \<^verbatim>\<open>make\<close>), or it ends the process (\<^verbatim>\<open>log.Fatalf\<close> calls \<^verbatim>\<open>os.Exit(1)\<close>).
\<close>

datatype 'a outcome = Returned 'a | Panicked | Exited

text \<open>
  The collaborators. \<open>'w\<close> is the state of everything outside this file (the controller,
  the sockets, the objects behind the references). The event codes are constants of
  package \<^verbatim>\<open>event\<close>. A read gets the buffer and returns the bytes it wrote at the front
  of the buffer, the count \<open>n\<close> and the error. Each operation is a total function: the
  model covers the runs in which the collaborator's call returns.
\<close>

record 'w env =
  device_NewSocket :: "int \<Rightarrow> 'w \<Rightarrow> (ref \<times> error option) \<times> 'w"
  cmd_NewCmd :: "ref \<Rightarrow> ref \<Rightarrow> 'w \<Rightarrow> ref \<times> 'w"
  l2cap_NewL2CAP :: "ref \<Rightarrow> ref \<Rightarrow> ref \<Rightarrow> int \<Rightarrow> 'w \<Rightarrow> ref \<times> 'w"
  event_NewEvent :: "ref \<Rightarrow> 'w \<Rightarrow> ref \<times> 'w"
  event_HandleEvent :: "ref \<Rightarrow> int \<Rightarrow> handler \<Rightarrow> 'w \<Rightarrow> 'w"
  event_LEMeta :: int
  event_DisconnectionComplete :: int
  event_NumberOfCompletedPkts :: int
  event_CommandComplete :: int
  event_CommandStatus :: int
  dev_Read :: "ref \<Rightarrow> byte list \<Rightarrow> 'w \<Rightarrow> (byte list \<times> int \<times> error option) \<times> 'w"
  l2c_HandleL2CAP :: "ref \<Rightarrow> byte list \<Rightarrow> 'w \<Rightarrow> error option \<times> 'w"
  evt_Dispatch :: "ref \<Rightarrow> byte list \<Rightarrow> 'w \<Rightarrow> error option \<times> 'w"
  cmd_SendAndCheckResp :: "ref \<Rightarrow> cmdParam \<Rightarrow> byte list \<Rightarrow> 'w \<Rightarrow> error option \<times> 'w"

subsection \<open>NewHCI\<close>

text \<open>
  The part of \<^verbatim>\<open>NewHCI\<close> after the socket is open: the three constructors, the struct
  literal (which leaves \<^verbatim>\<open>logger\<close> at its zero value) and the five registrations.
\<close>

definition NewHCI_open ::
  "'w env \<Rightarrow> ref \<Rightarrow> int \<Rightarrow> ref \<Rightarrow> 'w \<Rightarrow> event list \<times> HCI option \<times> 'w" where
  "NewHCI_open E l maxConn d w0 =
    (case cmd_NewCmd E d l w0 of (c, w1) \<Rightarrow>
     case l2cap_NewL2CAP E c d l maxConn w1 of (p, w2) \<Rightarrow>
     case event_NewEvent E l w2 of (e, w3) \<Rightarrow>
     let h = \<lparr>dev = d, logger = NilRef, cmd = c, evt = e, l2c = p\<rparr>;
         w4 = event_HandleEvent E e (event_LEMeta E) (L2C_HandleLEMeta p) w3;
         w5 = event_HandleEvent E e (event_DisconnectionComplete E)
                (L2C_HandleDisconnectionComplete p) w4;
         w6 = event_HandleEvent E e (event_NumberOfCompletedPkts E)
                (L2C_HandleNumberOfCompletedPkts p) w5;
         w7 = event_HandleEvent E e (event_CommandComplete E) (Cmd_HandleComplete c) w6;
         w8 = event_HandleEvent E e (event_CommandStatus E) (Cmd_HandleStatus c) w7
     in ([CallNewCmd d l, CallNewL2CAP c d l maxConn, CallNewEvent l,
          CallHandleEvent e (event_LEMeta E) (L2C_HandleLEMeta p),
          CallHandleEvent e (event_DisconnectionComplete E) (L2C_HandleDisconnectionComplete p),
          CallHandleEvent e (event_NumberOfCompletedPkts E) (L2C_HandleNumberOfCompletedPkts p),
          CallHandleEvent e (event_CommandComplete E) (Cmd_HandleComplete c),
          CallHandleEvent e (event_CommandStatus E) (Cmd_HandleStatus c)],
         Some h, w8))"

text \<open>
  \<^verbatim>\<open>NewHCI\<close>: socket 1, on an error socket 0, on a second error \<^verbatim>\<open>nil\<close>. The result is
  \<open>None\<close> for the \<^verbatim>\<open>nil\<close> pointer and \<open>Some h\<close> for \<^verbatim>\<open>&HCI{...}\<close>.
\<close>

definition NewHCI :: "'w env \<Rightarrow> ref \<Rightarrow> int \<Rightarrow> 'w \<Rightarrow> event list \<times> HCI option \<times> 'w" where
  "NewHCI E l maxConn w =
    (case device_NewSocket E 1 w of ((d, err), w1) \<Rightarrow>
       if err \<noteq> None then
         (case device_NewSocket E 0 w1 of ((d', err'), w2) \<Rightarrow>
            if err' \<noteq> None then ([CallNewSocket 1, CallNewSocket 0], None, w2)
            else (case NewHCI_open E l maxConn d' w2 of (tr, r, w3) \<Rightarrow>
                    ([CallNewSocket 1, CallNewSocket 0] @ tr, r, w3)))
       else (case NewHCI_open E l maxConn d w1 of (tr, r, w3) \<Rightarrow>
               ([CallNewSocket 1] @ tr, r, w3)))"

subsection \<open>The handlers\<close>

text \<open>
  \<^verbatim>\<open>handleCmd\<close>: \<^verbatim>\<open>op := uint16(b[0]) | uint16(b[1])<<8\<close>, a log line, \<^verbatim>\<open>return nil\<close>.
  Either index panics when it is not below \<^verbatim>\<open>len(b)\<close>.
\<close>

definition handleCmd :: "byte list \<Rightarrow> event list \<times> error option outcome" where
  "handleCmd b =
    (if \<not> 0 < length b then ([], Panicked)
     else if \<not> 1 < length b then ([], Panicked)
     else let op = (ucast (b ! 0) :: 16 word) OR push_bit 8 (ucast (b ! 1) :: 16 word)
          in ([LogPrintf (UnmanagedCmd op)], Returned None))"

definition handleSCO :: "byte list \<Rightarrow> error option" where
  "handleSCO b = Some (Errorf ''SCO packet not supported'')"

definition handleVendor :: "byte list \<Rightarrow> error option" where
  "handleVendor b = Some (Errorf ''Vendor packet not supported'')"

text \<open>The end of \<^verbatim>\<open>handlePacket\<close>: \<^verbatim>\<open>if err != nil { log.Printf("hci: %s, [ % X]", err, b) }\<close>\<close>

definition logErr :: "error option \<Rightarrow> byte list \<Rightarrow> event list" where
  "logErr err b = (case err of None \<Rightarrow> [] | Some e \<Rightarrow> [LogPrintf (HciError e b)])"

text \<open>
  \<^verbatim>\<open>handlePacket\<close>: \<^verbatim>\<open>t, b := PacketType(b[0]), b[1:]\<close>, the switch on \<open>t\<close>, and the log
  of a handler's error. \<^verbatim>\<open>b[0]\<close> panics on an empty frame. The function has no result:
  it returns \<open>()\<close>.
\<close>

definition handlePacket ::
  "'w env \<Rightarrow> HCI \<Rightarrow> byte list \<Rightarrow> 'w \<Rightarrow> event list \<times> unit outcome \<times> 'w" where
  "handlePacket E h b0 w =
    (if \<not> 0 < length b0 then ([], Panicked, w)
     else
       let t = b0 ! 0; b = drop 1 b0 in
       if t = ptypeCommandPkt then
         (case handleCmd b of
            (tr, Returned err) \<Rightarrow> (CallHandleCmd b # tr @ logErr err b, Returned (), w)
          | (tr, Panicked) \<Rightarrow> (CallHandleCmd b # tr, Panicked, w)
          | (tr, Exited) \<Rightarrow> (CallHandleCmd b # tr, Exited, w))
       else if t = ptypeACLDataPkt then
         (case l2c_HandleL2CAP E (l2c h) b w of
            (err, w1) \<Rightarrow> (CallHandleL2CAP (l2c h) b # logErr err b, Returned (), w1))
       else if t = ptypeSCODataPkt then
         (let err = handleSCO b in (CallHandleSCO b # logErr err b, Returned (), w))
       else if t = ptypeEventPkt then
         (case evt_Dispatch E (evt h) b w of
            (err, w1) \<Rightarrow> (CallDispatch (evt h) b # logErr err b, Returned (), w1))
       else if t = ptypeVendorPkt then
         (let err = handleVendor b in (CallHandleVendor b # logErr err b, Returned (), w))
       else ([LogFatalf t b], Exited, w))"

text \<open>The calls of a trace that enter one of the five handlers of the switch.\<close>

fun is_handler_call :: "event \<Rightarrow> bool" where
  "is_handler_call (CallHandleCmd b) = True"
| "is_handler_call (CallHandleL2CAP r b) = True"
| "is_handler_call (CallHandleSCO b) = True"
| "is_handler_call (CallDispatch r b) = True"
| "is_handler_call (CallHandleVendor b) = True"
| "is_handler_call _ = False"

definition handler_calls :: "event list \<Rightarrow> event list" where
  "handler_calls tr = filter is_handler_call tr"

subsection \<open>The read loop\<close>

text \<open>
  A read writes into the buffer it is given: the slice keeps its length, the bytes the
  device delivered replace its front.
\<close>

definition write_buf :: "byte list \<Rightarrow> byte list \<Rightarrow> byte list" where
  "write_buf dat b = take (length b) dat @ drop (length dat) b"

text \<open>
  \<^verbatim>\<open>p := make([]byte, n); copy(p, b)\<close>: \<open>n\<close> zero bytes, the first \<open>min n (len b)\<close> of them
  replaced by the front of \<open>b\<close>.
\<close>

definition copy_frame :: "nat \<Rightarrow> byte list \<Rightarrow> byte list" where
  "copy_frame n b = take n b @ replicate (n - length b) 0"

text \<open>
  The \<^verbatim>\<open>for\<close> loop of \<^verbatim>\<open>mainLoop\<close>. It has no exit but the two \<^verbatim>\<open>return\<close>s, so the model
  bounds the number of iterations: with no iteration left the outcome is \<open>None\<close>, the
  loop is still running, and the trace is what it did so far; \<open>Some r\<close> is the loop
  ended with \<open>r\<close>. \<^verbatim>\<open>make\<close> panics on a negative length.
  \<^verbatim>\<open>go h.handlePacket(p)\<close> starts the handler for the frame and goes on: the event
  \<open>GoHandlePacket p\<close>.
\<close>

fun mainLoop_iter ::
  "nat \<Rightarrow> 'w env \<Rightarrow> HCI \<Rightarrow> byte list \<Rightarrow> 'w \<Rightarrow> event list \<times> unit outcome option \<times> 'w"
  where
  "mainLoop_iter 0 E h b w = ([], None, w)"
| "mainLoop_iter (Suc k) E h b w =
    (case dev_Read E (dev h) b w of ((dat, n, err), w1) \<Rightarrow>
       let b1 = write_buf dat b in
       (case err of
          Some e \<Rightarrow>
            ([CallRead (dev h) n err, LogPrintf (FailedToRead e)], Some (Returned ()), w1)
        | None \<Rightarrow>
            if n = 0 then
              ([CallRead (dev h) n err, LogPrintf DevRead0Byte], Some (Returned ()), w1)
            else if n < 0 then ([CallRead (dev h) n err], Some Panicked, w1)
            else
              let p = copy_frame (nat n) b1 in
              (case mainLoop_iter k E h b1 w1 of (tr, r, w2) \<Rightarrow>
                 (CallRead (dev h) n err # GoHandlePacket p # tr, r, w2))))"

text \<open>\<^verbatim>\<open>mainLoop\<close>: \<^verbatim>\<open>b := make([]byte, 4096)\<close>, then the loop.\<close>

definition mainLoop ::
  "nat \<Rightarrow> 'w env \<Rightarrow> HCI \<Rightarrow> 'w \<Rightarrow> event list \<times> unit outcome option \<times> 'w" where
  "mainLoop fuel E h w = mainLoop_iter fuel E h (replicate 4096 0) w"

subsection \<open>ResetDevice\<close>

definition expSuccess :: "byte list" where
  "expSuccess = [0x00]"

definition bcmResetSeq :: "cmdSeq list" where
  "bcmResetSeq =
    [\<lparr>cp = WriteSimplePairingMode 1, exp = expSuccess\<rparr>,
     \<lparr>cp = WriteLEHostSupported 1 0, exp = expSuccess\<rparr>,
     \<lparr>cp = WriteInquiryMode 2, exp = expSuccess\<rparr>,
     \<lparr>cp = WritePageScanType 1, exp = expSuccess\<rparr>,
     \<lparr>cp = WriteInquiryScanType 1, exp = expSuccess\<rparr>,
     \<lparr>cp = WriteClassOfDevice [0x40, 0x02, 0x04], exp = expSuccess\<rparr>,
     \<lparr>cp = WritePageTimeout 0x2000, exp = expSuccess\<rparr>,
     \<lparr>cp = WriteDefaultLinkPolicy 0x5, exp = expSuccess\<rparr>,
     \<lparr>cp = HostBufferSize 0x1000 0xff 0x0014 0x000a, exp = expSuccess\<rparr>]"

definition defaultResetSeq :: "cmdSeq list" where
  "defaultResetSeq =
    [\<lparr>cp = Reset, exp = expSuccess\<rparr>,
     \<lparr>cp = SetEventMask 0x3dbff807fffbffff, exp = expSuccess\<rparr>,
     \<lparr>cp = LESetEventMask 0x000000000000001F, exp = expSuccess\<rparr>]"

text \<open>
  One \<^verbatim>\<open>for _, s := range seq\<close> loop of \<^verbatim>\<open>ResetDevice\<close>: send each step, return the first
  error. \<open>Some err\<close> is the \<^verbatim>\<open>return err\<close> inside the loop, \<open>None\<close> the loop running to
  its end. \<^verbatim>\<open>h.Cmd()\<close> is \<^verbatim>\<open>h.cmd\<close>.
\<close>

fun sendSeq ::
  "'w env \<Rightarrow> HCI \<Rightarrow> cmdSeq list \<Rightarrow> 'w \<Rightarrow> event list \<times> error option \<times> 'w" where
  "sendSeq E h [] w = ([], None, w)"
| "sendSeq E h (s # ss) w =
    (case cmd_SendAndCheckResp E (cmd h) (cp s) (exp s) w of
       (Some err, w1) \<Rightarrow> ([CallSendAndCheckResp (cmd h) (cp s) (exp s)], Some err, w1)
     | (None, w1) \<Rightarrow>
         (case sendSeq E h ss w1 of (tr, r, w2) \<Rightarrow>
            (CallSendAndCheckResp (cmd h) (cp s) (exp s) # tr, r, w2)))"

definition ResetDevice :: "'w env \<Rightarrow> HCI \<Rightarrow> 'w \<Rightarrow> event list \<times> error option \<times> 'w" where
  "ResetDevice E h w =
    (case sendSeq E h defaultResetSeq w of
       (tr1, Some err, w1) \<Rightarrow> (tr1, Some err, w1)
     | (tr1, None, w1) \<Rightarrow>
         (case sendSeq E h bcmResetSeq w1 of
            (tr2, Some err, w2) \<Rightarrow> (tr1 @ tr2, Some err, w2)
          | (tr2, None, w2) \<Rightarrow> (tr1 @ tr2, None, w2)))"

subsection \<open>Reading a trace\<close>

text \<open>
  What the Command Subsystem answers to each step of a list when the steps are sent one
  after the other from the world \<open>w\<close>, whatever the answers are. It is used to say
  which step is the first to fail: up to that step it is what \<^verbatim>\<open>ResetDevice\<close> receives.
\<close>

fun responses :: "'w env \<Rightarrow> HCI \<Rightarrow> cmdSeq list \<Rightarrow> 'w \<Rightarrow> error option list" where
  "responses E h [] w = []"
| "responses E h (s # ss) w =
    (case cmd_SendAndCheckResp E (cmd h) (cp s) (exp s) w of
       (r, w1) \<Rightarrow> r # responses E h ss w1)"

text \<open>The calls of \<^verbatim>\<open>SendAndCheckResp\<close> for the steps of a list, one each, in list order.\<close>

definition sends :: "HCI \<Rightarrow> cmdSeq list \<Rightarrow> event list" where
  "sends h ss = map (\<lambda>s. CallSendAndCheckResp (cmd h) (cp s) (exp s)) ss"

text \<open>The registrations of a trace: receiver, event code and handler of each
  \<^verbatim>\<open>HandleEvent\<close> call, in order.\<close>

fun registrations :: "event list \<Rightarrow> (ref \<times> int \<times> handler) list" where
  "registrations [] = []"
| "registrations (CallHandleEvent e k f # tr) = (e, k, f) # registrations tr"
| "registrations (_ # tr) = registrations tr"

subsection \<open>A fake of the collaborators\<close>

text \<open>
  A test double for the collaborators, to run the model on concrete inputs. The world is
  the number of calls made so far. \<open>sockOK i\<close> says whether socket \<open>i\<close> opens, the call
  number \<open>failAt\<close> (counted from 1) is the one \<^verbatim>\<open>SendAndCheckResp\<close> answers with an error,
  and \<open>reads k\<close> is what the read that is call number \<open>k + 1\<close> delivers. The event codes
  are those of the HCI specification.
\<close>

definition fakeEnv ::
  "(int \<Rightarrow> bool) \<Rightarrow> nat \<Rightarrow> (nat \<Rightarrow> byte list \<times> int \<times> error option) \<Rightarrow> nat env" where
  "fakeEnv sockOK failAt reads =
    \<lparr>device_NewSocket = (\<lambda>i w. ((if sockOK i then Ref (nat i + 1) else NilRef,
                                  if sockOK i then None else Some (Errorf ''no such device'')),
                                 Suc w)),
     cmd_NewCmd = (\<lambda>d l w. (Ref 10, Suc w)),
     l2cap_NewL2CAP = (\<lambda>c d l m w. (Ref 11, Suc w)),
     event_NewEvent = (\<lambda>l w. (Ref 12, Suc w)),
     event_HandleEvent = (\<lambda>e k f w. Suc w),
     event_LEMeta = 0x3E,
     event_DisconnectionComplete = 0x05,
     event_NumberOfCompletedPkts = 0x13,
     event_CommandComplete = 0x0E,
     event_CommandStatus = 0x0F,
     dev_Read = (\<lambda>d b w. (reads w, Suc w)),
     l2c_HandleL2CAP = (\<lambda>p b w. (None, Suc w)),
     evt_Dispatch = (\<lambda>e b w. (None, Suc w)),
     cmd_SendAndCheckResp =
       (\<lambda>c p x w. (if Suc w = failAt then Some (Errorf ''unexpected response'') else None,
                    Suc w))\<rparr>"

text \<open>The instance \<^verbatim>\<open>NewHCI\<close> builds on the fake when a socket opens.\<close>

definition fakeHCI :: HCI where
  "fakeHCI = \<lparr>dev = Ref 2, logger = NilRef, cmd = Ref 10, evt = Ref 12, l2c = Ref 11\<rparr>"

text \<open>
  A second fake, for the Event Routing Table. The world is the table of the one Event
  object, as the list of its bindings, newest first: \<^verbatim>\<open>NewEvent\<close> starts it empty,
  \<^verbatim>\<open>HandleEvent\<close> puts a binding in front, and no other operation touches it. Every
  socket opens and every call succeeds.
\<close>

definition fakeEventEnv :: "(int \<times> handler) list env" where
  "fakeEventEnv =
    \<lparr>device_NewSocket = (\<lambda>i w. ((Ref (nat i + 1), None), w)),
     cmd_NewCmd = (\<lambda>d l w. (Ref 10, w)),
     l2cap_NewL2CAP = (\<lambda>c d l m w. (Ref 11, w)),
     event_NewEvent = (\<lambda>l w. (Ref 12, [])),
     event_HandleEvent = (\<lambda>e k f w. (k, f) # w),
     event_LEMeta = 0x3E,
     event_DisconnectionComplete = 0x05,
     event_NumberOfCompletedPkts = 0x13,
     event_CommandComplete = 0x0E,
     event_CommandStatus = 0x0F,
     dev_Read = (\<lambda>d b w. (([], 0, None), w)),
     l2c_HandleL2CAP = (\<lambda>p b w. (None, w)),
     evt_Dispatch = (\<lambda>e b w. (None, w)),
     cmd_SendAndCheckResp = (\<lambda>c p x w. (None, w))\<rparr>"

section \<open>Properties\<close>

lemmas ptype_defs = ptypeCommandPkt_def ptypeACLDataPkt_def ptypeSCODataPkt_def
  ptypeEventPkt_def ptypeVendorPkt_def

subsection \<open>The opcode is read low byte first\<close>

lemma or_is_add:
  "(ucast (lo :: byte) :: 16 word) OR push_bit 8 (ucast (hi :: byte) :: 16 word)
     = ucast lo + push_bit 8 (ucast hi)"
proof (rule disjunctive_add [symmetric])
  fix n
  show "\<not> bit (ucast lo :: 16 word) n \<or> \<not> bit (push_bit 8 (ucast hi :: 16 word) :: 16 word) n"
    by (cases "n < 8") (auto simp: bit_simps dest: bit_imp_le_length)
qed

lemma byte_bound: "unat (x :: byte) < 256"
  using unsigned_less [of x, where 'a = nat] by simp

lemma unat_lo: "unat (ucast (lo :: byte) :: 16 word) = unat lo"
  using byte_bound [of lo] by (simp add: unsigned_ucast_eq take_bit_nat_eq_self)

lemma unat_hi: "unat (push_bit 8 (ucast (hi :: byte) :: 16 word) :: 16 word) = 256 * unat hi"
proof -
  have "256 * unat hi < 65536" using byte_bound [of hi] by simp
  then show ?thesis
    by (simp add: push_bit_eq_mult unat_word_ariths unat_lo)
qed

lemma unat_opcode:
  "unat ((ucast (lo :: byte) :: 16 word) OR push_bit 8 (ucast (hi :: byte) :: 16 word))
     = unat lo + 256 * unat hi"
proof -
  have "unat lo + 256 * unat hi < 65536"
    using byte_bound [of lo] byte_bound [of hi] by simp
  then show ?thesis
    by (simp add: or_is_add unat_word_ariths unat_lo unat_hi)
qed

lemma opcode_little_endian:
  "(ucast (lo :: byte) :: 16 word) OR push_bit 8 (ucast (hi :: byte) :: 16 word)
     = word_of_nat (unat lo + 256 * unat hi)"
  using unat_opcode [of lo hi, symmetric] by simp

subsection \<open>The demultiplexer\<close>

text \<open>
  C4. A frame whose tag is none of 0x01, 0x02, 0x03, 0x04, 0xFF takes the default branch
  of the switch: \<^verbatim>\<open>handlePacket\<close> logs the fatal message and the process exits. It does
  not return, no handler is called, and the collaborators are not touched.
\<close>

theorem handlePacket_unknown_type:
  assumes "t \<noteq> ptypeCommandPkt" "t \<noteq> ptypeACLDataPkt" "t \<noteq> ptypeSCODataPkt"
    "t \<noteq> ptypeEventPkt" "t \<noteq> ptypeVendorPkt"
  shows "handlePacket E h (t # b) w = ([LogFatalf t b], Exited, w) \<and>
         handler_calls (fst (handlePacket E h (t # b) w)) = [] \<and>
         fst (snd (handlePacket E h (t # b) w)) \<noteq> Returned ()"
  using assms by (simp add: handlePacket_def handler_calls_def)

theorem handlePacket_unknown_type_witness:
  "handlePacket (fakeEnv (\<lambda>i. True) 0 (\<lambda>k. ([], 0, None))) fakeHCI [0x05, 0x0E, 0x01] 7
     = ([LogFatalf 0x05 [0x0E, 0x01]], Exited, 7)"
  using handlePacket_unknown_type
    [of "0x05" "fakeEnv (\<lambda>i. True) 0 (\<lambda>k. ([], 0, None))" fakeHCI "[0x0E, 0x01]" 7]
  by (simp add: ptype_defs)

text \<open>
  C5. The handlers of an SCO frame (0x03) and of a Vendor frame (0xFF) return a non-nil
  "not supported" error. \<^verbatim>\<open>handlePacket\<close> calls the one handler, logs the error with the
  payload and returns: the trace has no call of \<^verbatim>\<open>evt.Dispatch\<close> or of the L2CAP
  handler, the world of the collaborators is unchanged, and the error goes nowhere but
  the log.
\<close>

theorem handlePacket_unsupported:
  "handleSCO b = Some (Errorf ''SCO packet not supported'') \<and>
   handleVendor b = Some (Errorf ''Vendor packet not supported'') \<and>
   handlePacket E h (ptypeSCODataPkt # b) w =
     ([CallHandleSCO b, LogPrintf (HciError (Errorf ''SCO packet not supported'') b)],
      Returned (), w) \<and>
   handlePacket E h (ptypeVendorPkt # b) w =
     ([CallHandleVendor b, LogPrintf (HciError (Errorf ''Vendor packet not supported'') b)],
      Returned (), w)"
  by (simp add: handlePacket_def handleSCO_def handleVendor_def logErr_def ptype_defs)

subsection \<open>The command-echo observer\<close>

text \<open>
  C9. \<^verbatim>\<open>handleCmd\<close> is not total: it returns (with a nil error) exactly when the payload
  has at least 2 bytes, and panics on the index otherwise. Through \<^verbatim>\<open>handlePacket\<close>: a
  Command frame returns exactly when the whole frame has at least 3 bytes.
\<close>

theorem handleCmd_returns_iff:
  "snd (handleCmd b) = (if 2 \<le> length b then Returned None else Panicked) \<and>
   fst (snd (handlePacket E h (ptypeCommandPkt # b) w)) =
     (if 3 \<le> length (ptypeCommandPkt # b) then Returned () else Panicked)"
  by (auto simp add: handlePacket_def handleCmd_def Let_def logErr_def)

theorem handleCmd_returns_iff_witness:
  "snd (handleCmd [0x03]) = Panicked \<and> snd (handleCmd [0x03, 0x0C]) = Returned None \<and>
   fst (snd (handlePacket (fakeEnv (\<lambda>i. True) 0 (\<lambda>k. ([], 0, None))) fakeHCI [0x01, 0x03] 0))
     = Panicked"
  using handleCmd_returns_iff [of "[0x03]" "fakeEnv (\<lambda>i. True) 0 (\<lambda>k. ([], 0, None))" fakeHCI 0]
    handleCmd_returns_iff [of "[0x03, 0x0C]" "fakeEnv (\<lambda>i. True) 0 (\<lambda>k. ([], 0, None))" fakeHCI 0]
  by (simp add: ptype_defs)

text \<open>
  C7, as stated, fails: on a Command frame whose payload has fewer than 2 bytes the
  observer neither logs nor returns nil, it panics. Here the payload is the one byte 0x03.
\<close>

theorem handleCmd_short_payload_counterexample:
  "snd (handleCmd [0x03]) \<noteq> Returned None \<and> fst (handleCmd [0x03]) = [] \<and>
   handlePacket (fakeEnv (\<lambda>i. True) 0 (\<lambda>k. ([], 0, None))) fakeHCI [0x01, 0x03] 0
     = ([CallHandleCmd [0x03]], Panicked, 0)"
  by (simp add: handlePacket_def handleCmd_def ptype_defs)

text \<open>
  C7, amended. For a Command frame whose payload has at least 2 bytes, the observer
  decodes the opcode low byte first (\<open>payload[0] + 256 * payload[1]\<close>), writes one log
  entry with it and returns nil; \<^verbatim>\<open>handlePacket\<close> then calls nothing else and returns.
  For every payload, the observer never returns a non-nil error, and the frame is
  forwarded to no collaborator: \<^verbatim>\<open>handleCmd\<close> is the only handler called and the world
  of the collaborators is unchanged.
\<close>

theorem handleCmd_decodes_and_logs:
  "(2 \<le> length b \<longrightarrow>
      handleCmd b =
        ([LogPrintf (UnmanagedCmd (word_of_nat (unat (b ! 0) + 256 * unat (b ! 1))))],
         Returned None) \<and>
      handlePacket E h (ptypeCommandPkt # b) w =
        ([CallHandleCmd b,
          LogPrintf (UnmanagedCmd (word_of_nat (unat (b ! 0) + 256 * unat (b ! 1))))],
         Returned (), w)) \<and>
   snd (handleCmd b) \<noteq> Returned (Some e) \<and>
   handler_calls (fst (handlePacket E h (ptypeCommandPkt # b) w)) = [CallHandleCmd b] \<and>
   snd (snd (handlePacket E h (ptypeCommandPkt # b) w)) = w"
  by (auto simp add: handlePacket_def handleCmd_def Let_def logErr_def handler_calls_def
      opcode_little_endian)

theorem handleCmd_decodes_and_logs_witness:
  "handleCmd [0x03, 0x0C, 0x00] = ([LogPrintf (UnmanagedCmd 0x0C03)], Returned None) \<and>
   handlePacket (fakeEnv (\<lambda>i. True) 0 (\<lambda>k. ([], 0, None))) fakeHCI [0x01, 0x03, 0x0C, 0x00] 5
     = ([CallHandleCmd [0x03, 0x0C, 0x00], LogPrintf (UnmanagedCmd 0x0C03)], Returned (), 5)"
  using handleCmd_decodes_and_logs
    [of "[0x03, 0x0C, 0x00]" "fakeEnv (\<lambda>i. True) 0 (\<lambda>k. ([], 0, None))" fakeHCI 5]
  by (simp add: ptype_defs)

subsection \<open>Routing\<close>

text \<open>
  C1, as stated, fails: not every inbound frame has a handler. The frame 0x05 0x0E has a
  tag outside the five of the switch; \<^verbatim>\<open>handlePacket\<close> calls no handler for it and the
  process exits.
\<close>

theorem handlePacket_routes_counterexample:
  "handler_calls (fst (handlePacket (fakeEnv (\<lambda>i. True) 0 (\<lambda>k. ([], 0, None))) fakeHCI
      [0x05, 0x0E] 0)) = [] \<and>
   fst (snd (handlePacket (fakeEnv (\<lambda>i. True) 0 (\<lambda>k. ([], 0, None))) fakeHCI
      [0x05, 0x0E] 0)) = Exited"
  by (simp add: handlePacket_def handler_calls_def ptype_defs)

lemma handler_calls_logErr: "handler_calls (logErr err b) = []"
  by (simp add: handler_calls_def logErr_def split: option.splits)

lemma handler_calls_handleCmd: "handler_calls (fst (handleCmd b)) = []"
  by (simp add: handler_calls_def handleCmd_def Let_def)

text \<open>
  C1, amended. For every inbound frame whose tag is one of 0x01, 0x02, 0x03, 0x04, 0xFF,
  \<^verbatim>\<open>handlePacket\<close> takes the first byte as the tag and hands the rest, and nothing but
  the rest, to the handler of the tag: 0x01 to \<^verbatim>\<open>handleCmd\<close>, 0x02 to
  \<^verbatim>\<open>l2c.HandleL2CAP\<close>, 0x03 to \<^verbatim>\<open>handleSCO\<close>, 0x04 to \<^verbatim>\<open>evt.Dispatch\<close>, 0xFF to
  \<^verbatim>\<open>handleVendor\<close>. What \<^verbatim>\<open>handlePacket\<close> does on such a frame is what that handler
  does on the payload (its log, its panic, the collaborator's new world) followed by the
  log of the error it returned, if any; the handler calls of the trace are that one call,
  once.
\<close>

theorem handlePacket_routes_known_tags:
  "handlePacket E h (ptypeCommandPkt # b) w =
     (CallHandleCmd b # fst (handleCmd b) @
        (case snd (handleCmd b) of Returned err \<Rightarrow> logErr err b | Panicked \<Rightarrow> [] | Exited \<Rightarrow> []),
      (case snd (handleCmd b) of Returned err \<Rightarrow> Returned () | Panicked \<Rightarrow> Panicked
         | Exited \<Rightarrow> Exited),
      w) \<and>
   handlePacket E h (ptypeACLDataPkt # b) w =
     (CallHandleL2CAP (l2c h) b # logErr (fst (l2c_HandleL2CAP E (l2c h) b w)) b,
      Returned (), snd (l2c_HandleL2CAP E (l2c h) b w)) \<and>
   handlePacket E h (ptypeSCODataPkt # b) w =
     (CallHandleSCO b # logErr (handleSCO b) b, Returned (), w) \<and>
   handlePacket E h (ptypeEventPkt # b) w =
     (CallDispatch (evt h) b # logErr (fst (evt_Dispatch E (evt h) b w)) b,
      Returned (), snd (evt_Dispatch E (evt h) b w)) \<and>
   handlePacket E h (ptypeVendorPkt # b) w =
     (CallHandleVendor b # logErr (handleVendor b) b, Returned (), w) \<and>
   handler_calls (fst (handlePacket E h (ptypeCommandPkt # b) w)) = [CallHandleCmd b] \<and>
   handler_calls (fst (handlePacket E h (ptypeACLDataPkt # b) w)) = [CallHandleL2CAP (l2c h) b] \<and>
   handler_calls (fst (handlePacket E h (ptypeSCODataPkt # b) w)) = [CallHandleSCO b] \<and>
   handler_calls (fst (handlePacket E h (ptypeEventPkt # b) w)) = [CallDispatch (evt h) b] \<and>
   handler_calls (fst (handlePacket E h (ptypeVendorPkt # b) w)) = [CallHandleVendor b]"
proof -
  have c: "handlePacket E h (ptypeCommandPkt # b) w =
     (CallHandleCmd b # fst (handleCmd b) @
        (case snd (handleCmd b) of Returned err \<Rightarrow> logErr err b | Panicked \<Rightarrow> [] | Exited \<Rightarrow> []),
      (case snd (handleCmd b) of Returned err \<Rightarrow> Returned () | Panicked \<Rightarrow> Panicked
         | Exited \<Rightarrow> Exited),
      w)"
    by (cases "handleCmd b") (simp add: handlePacket_def split: outcome.splits)
  have a: "handlePacket E h (ptypeACLDataPkt # b) w =
     (CallHandleL2CAP (l2c h) b # logErr (fst (l2c_HandleL2CAP E (l2c h) b w)) b,
      Returned (), snd (l2c_HandleL2CAP E (l2c h) b w))"
    by (simp add: handlePacket_def ptype_defs split: prod.splits)
  have s: "handlePacket E h (ptypeSCODataPkt # b) w =
     (CallHandleSCO b # logErr (handleSCO b) b, Returned (), w)"
    by (simp add: handlePacket_def ptype_defs)
  have e: "handlePacket E h (ptypeEventPkt # b) w =
     (CallDispatch (evt h) b # logErr (fst (evt_Dispatch E (evt h) b w)) b,
      Returned (), snd (evt_Dispatch E (evt h) b w))"
    by (simp add: handlePacket_def ptype_defs split: prod.splits)
  have v: "handlePacket E h (ptypeVendorPkt # b) w =
     (CallHandleVendor b # logErr (handleVendor b) b, Returned (), w)"
    by (simp add: handlePacket_def ptype_defs)
  have hc: "handler_calls (fst (handlePacket E h (ptypeCommandPkt # b) w)) = [CallHandleCmd b]"
    using handler_calls_handleCmd [of b]
    by (simp add: c handler_calls_def logErr_def split: outcome.splits option.splits)
  have ha: "handler_calls (fst (handlePacket E h (ptypeACLDataPkt # b) w))
      = [CallHandleL2CAP (l2c h) b]"
    using handler_calls_logErr [of "fst (l2c_HandleL2CAP E (l2c h) b w)" b]
    by (simp add: a handler_calls_def)
  have hs: "handler_calls (fst (handlePacket E h (ptypeSCODataPkt # b) w)) = [CallHandleSCO b]"
    using handler_calls_logErr [of "handleSCO b" b] by (simp add: s handler_calls_def)
  have he: "handler_calls (fst (handlePacket E h (ptypeEventPkt # b) w))
      = [CallDispatch (evt h) b]"
    using handler_calls_logErr [of "fst (evt_Dispatch E (evt h) b w)" b]
    by (simp add: e handler_calls_def)
  have hv: "handler_calls (fst (handlePacket E h (ptypeVendorPkt # b) w))
      = [CallHandleVendor b]"
    using handler_calls_logErr [of "handleVendor b" b] by (simp add: v handler_calls_def)
  show ?thesis by (intro conjI c a s e v hc ha hs he hv)
qed

theorem handlePacket_routes_known_tags_witness:
  "handlePacket (fakeEnv (\<lambda>i. True) 0 (\<lambda>k. ([], 0, None))) fakeHCI
      [0x04, 0x0E, 0x04, 0x01, 0x03, 0x0C, 0x00] 3
     = ([CallDispatch (Ref 12) [0x0E, 0x04, 0x01, 0x03, 0x0C, 0x00]], Returned (), 4) \<and>
   handlePacket (fakeEnv (\<lambda>i. True) 0 (\<lambda>k. ([], 0, None))) fakeHCI
      [0x01, 0x0E, 0x04, 0x01, 0x03, 0x0C, 0x00] 3
     = ([CallHandleCmd [0x0E, 0x04, 0x01, 0x03, 0x0C, 0x00], LogPrintf (UnmanagedCmd 0x040E)],
        Returned (), 3) \<and>
   handlePacket (fakeEnv (\<lambda>i. True) 0 (\<lambda>k. ([], 0, None))) fakeHCI
      [0x03, 0x0E, 0x04, 0x01, 0x03, 0x0C, 0x00] 3
     = ([CallHandleSCO [0x0E, 0x04, 0x01, 0x03, 0x0C, 0x00],
         LogPrintf (HciError (Errorf ''SCO packet not supported'')
           [0x0E, 0x04, 0x01, 0x03, 0x0C, 0x00])],
        Returned (), 3)"
  using handlePacket_routes_known_tags [of "fakeEnv (\<lambda>i. True) 0 (\<lambda>k. ([], 0, None))" fakeHCI
      "[0x0E, 0x04, 0x01, 0x03, 0x0C, 0x00]" 3]
  by (simp add: ptype_defs fakeEnv_def fakeHCI_def logErr_def handleCmd_def handleSCO_def)

subsection \<open>The read loop\<close>

lemma length_copy_frame: "length (copy_frame n b) = n"
  by (simp add: copy_frame_def)

lemma length_write_buf: "length (write_buf dat b) = length b"
  by (simp add: write_buf_def)

text \<open>
  Every frame the loop hands to \<^verbatim>\<open>handlePacket\<close> has at least one byte, the tag: the
  loop returns on a read of zero bytes, so \<^verbatim>\<open>b[0]\<close> in \<^verbatim>\<open>handlePacket\<close> does not panic
  on a frame that comes from the loop.
\<close>

lemma mainLoop_iter_frames_nonempty:
  "mainLoop_iter k E h b w = (tr, out, w') \<Longrightarrow> GoHandlePacket p \<in> set tr \<Longrightarrow> p \<noteq> []"
proof (induction k arbitrary: b w tr)
  case 0
  then show ?case by simp
next
  case (Suc k)
  then show ?case
    by (auto simp add: Let_def length_copy_frame copy_frame_def
        split: prod.splits option.splits if_splits)
qed

text \<open>A failed read inside the loop, for any buffer the loop starts from.\<close>

lemma mainLoop_iter_failed_read:
  assumes "mainLoop_iter k E h b w = (tr, out, w')"
    and "i < length tr" and "tr ! i = CallRead r n err" and "err \<noteq> None \<or> n = 0"
  shows "out = Some (Returned ()) \<and> (\<exists>m. drop (Suc i) tr = [LogPrintf m])"
  using assms
proof (induction k arbitrary: b w tr i)
  case 0
  then show ?case by simp
next
  case (Suc k)
  obtain dat n' err' w1 where rd: "dev_Read E (dev h) b w = ((dat, n', err'), w1)"
    by (metis prod_cases3 surj_pair)
  show ?case
  proof (cases err')
    case (Some e)
    with Suc.prems rd show ?thesis by (auto simp add: nth_Cons' split: if_splits)
  next
    case None
    show ?thesis
    proof (cases "n' = 0")
      case True
      with None Suc.prems rd show ?thesis by (auto simp add: nth_Cons' split: if_splits)
    next
      case nz: False
      show ?thesis
      proof (cases "n' < 0")
        case True
        with nz None Suc.prems rd show ?thesis by (auto simp add: nth_Cons' split: if_splits)
      next
        case False
        obtain tr1 out1 w2 where rec: "mainLoop_iter k E h (write_buf dat b) w1 = (tr1, out1, w2)"
          by (metis prod_cases3)
        from Suc.prems(1) rd None nz False rec
        have tr: "tr = CallRead (dev h) n' None # GoHandlePacket (copy_frame (nat n') (write_buf dat b)) # tr1"
          and out: "out = out1" and w': "w' = w2"
          by (simp_all add: Let_def)
        from rec out w' have rec': "mainLoop_iter k E h (write_buf dat b) w1 = (tr1, out, w')"
          by simp
        from Suc.prems(3,4) tr nz have "i \<noteq> 0" by (cases i) auto
        moreover from Suc.prems(3) tr have "i \<noteq> 1" by auto
        ultimately obtain i' where i: "i = Suc (Suc i')"
          by (metis One_nat_def not0_implies_Suc)
        with Suc.prems(2,3) tr have "i' < length tr1" "tr1 ! i' = CallRead r n err" by simp_all
        from Suc.IH [OF rec' this Suc.prems(4)] tr i show ?thesis by simp
      qed
    qed
  qed
qed

lemma mainLoop_iter_more_fuel:
  "mainLoop_iter k E h b w = (tr, out, w') \<Longrightarrow> out \<noteq> None \<Longrightarrow>
   mainLoop_iter (k + j) E h b w = (tr, out, w')"
proof (induction k arbitrary: b w tr)
  case 0
  then show ?case by simp
next
  case (Suc k)
  then show ?case
    by (auto simp add: Let_def split: prod.splits option.splits if_splits)
qed

text \<open>
  C6. In any run of the read loop, a read that returns an error or zero bytes is the
  last thing the loop does but for one log line: the loop has returned, the trace after
  that read has no further read, no goroutine for a frame and no new socket, and however
  many more iterations the loop is allowed, the run stays the same.
\<close>

theorem mainLoop_failed_read_ends_loop:
  assumes "mainLoop fuel E h w = (tr, out, w')"
    and "i < length tr" and "tr ! i = CallRead r n err" and "err \<noteq> None \<or> n = 0"
  shows "out = Some (Returned ()) \<and> (\<exists>m. drop (Suc i) tr = [LogPrintf m]) \<and>
         (\<forall>k. mainLoop (fuel + k) E h w = (tr, out, w'))"
proof -
  from assms(1) have run: "mainLoop_iter fuel E h (replicate 4096 0) w = (tr, out, w')"
    by (simp add: mainLoop_def)
  from mainLoop_iter_failed_read [OF run assms(2,3,4)]
  have ended: "out = Some (Returned ()) \<and> (\<exists>m. drop (Suc i) tr = [LogPrintf m])" .
  then have "out \<noteq> None" by simp
  with run have "\<forall>k. mainLoop_iter (fuel + k) E h (replicate 4096 0) w = (tr, out, w')"
    by (simp add: mainLoop_iter_more_fuel)
  with ended show ?thesis by (simp add: mainLoop_def)
qed

theorem mainLoop_failed_read_ends_loop_witness:
  "mainLoop (Suc (Suc (Suc 0)))
      (fakeEnv (\<lambda>i. True) 0 (\<lambda>k. if k = 0 then ([0x04, 0x0E], 2, None) else ([], 0, None)))
      fakeHCI 0
     = ([CallRead (Ref 2) 2 None, GoHandlePacket [0x04, 0x0E],
         CallRead (Ref 2) 0 None, LogPrintf DevRead0Byte], Some (Returned ()), 2) \<and>
   drop 3 [CallRead (Ref 2) 2 None, GoHandlePacket [0x04, 0x0E],
         CallRead (Ref 2) 0 None, LogPrintf DevRead0Byte] = [LogPrintf DevRead0Byte] \<and>
   mainLoop (Suc (Suc (Suc (Suc (Suc 0)))))
      (fakeEnv (\<lambda>i. True) 0 (\<lambda>k. if k = 0 then ([0x04, 0x0E], 2, None) else ([], 0, None)))
      fakeHCI 0
     = ([CallRead (Ref 2) 2 None, GoHandlePacket [0x04, 0x0E],
         CallRead (Ref 2) 0 None, LogPrintf DevRead0Byte], Some (Returned ()), 2) \<and>
   mainLoop (Suc (Suc 0))
      (fakeEnv (\<lambda>i. True) 0 (\<lambda>k. ([0x04], 1, Some (Errorf ''bad file descriptor''))))
      fakeHCI 0
     = ([CallRead (Ref 2) 1 (Some (Errorf ''bad file descriptor'')),
         LogPrintf (FailedToRead (Errorf ''bad file descriptor''))], Some (Returned ()), 1)"
proof -
  have run: "mainLoop (Suc (Suc (Suc 0)))
      (fakeEnv (\<lambda>i. True) 0 (\<lambda>k. if k = 0 then ([0x04, 0x0E], 2, None) else ([], 0, None)))
      fakeHCI 0
     = ([CallRead (Ref 2) 2 None, GoHandlePacket [0x04, 0x0E],
         CallRead (Ref 2) 0 None, LogPrintf DevRead0Byte], Some (Returned ()), 2)"
    by (simp add: mainLoop_def fakeEnv_def fakeHCI_def write_buf_def copy_frame_def Let_def)
  have run': "mainLoop (Suc 0)
      (fakeEnv (\<lambda>i. True) 0 (\<lambda>k. ([0x04], 1, Some (Errorf ''bad file descriptor''))))
      fakeHCI 0
     = ([CallRead (Ref 2) 1 (Some (Errorf ''bad file descriptor'')),
         LogPrintf (FailedToRead (Errorf ''bad file descriptor''))], Some (Returned ()), 1)"
    by (simp add: mainLoop_def fakeEnv_def fakeHCI_def write_buf_def copy_frame_def Let_def)
  from mainLoop_failed_read_ends_loop [OF run, of 2 "Ref 2" 0 None]
    mainLoop_failed_read_ends_loop
      [OF run', of 0 "Ref 2" 1 "Some (Errorf ''bad file descriptor'')"]
  show ?thesis using run by simp
qed

subsection \<open>The bring-up sequence\<close>

lemma length_responses [simp]: "length (responses E h ss w) = length ss"
  by (induction ss arbitrary: w) (auto split: prod.splits)

lemma sendSeq_append:
  "sendSeq E h (xs @ ys) w =
    (case sendSeq E h xs w of
       (tr1, Some err, w1) \<Rightarrow> (tr1, Some err, w1)
     | (tr1, None, w1) \<Rightarrow>
         (case sendSeq E h ys w1 of (tr2, r, w2) \<Rightarrow> (tr1 @ tr2, r, w2)))"
  by (induction xs arbitrary: w) (auto split: prod.splits option.splits)

lemma ResetDevice_sendSeq:
  "ResetDevice E h w = sendSeq E h (defaultResetSeq @ bcmResetSeq) w"
  by (auto simp add: ResetDevice_def sendSeq_append split: prod.splits option.splits)

lemma sendSeq_first_failure:
  "i < length ss \<Longrightarrow> responses E h ss w ! i = Some e \<Longrightarrow>
   (\<forall>j<i. responses E h ss w ! j = None) \<Longrightarrow>
   fst (sendSeq E h ss w) = sends h (take (Suc i) ss) \<and> fst (snd (sendSeq E h ss w)) = Some e"
proof (induction ss arbitrary: i w)
  case Nil
  then show ?case by simp
next
  case (Cons s ss)
  obtain r w1 where snd1: "cmd_SendAndCheckResp E (cmd h) (cp s) (exp s) w = (r, w1)"
    by (cases "cmd_SendAndCheckResp E (cmd h) (cp s) (exp s) w")
  show ?case
  proof (cases i)
    case 0
    with Cons.prems snd1 show ?thesis by (simp add: sends_def)
  next
    case (Suc i')
    from Cons.prems(3) Suc snd1 have r: "r = None" by force
    from Cons.prems(1) Suc have 1: "i' < length ss" by simp
    from Cons.prems(2) Suc snd1 have 2: "responses E h ss w1 ! i' = Some e" by simp
    have 3: "\<forall>j<i'. responses E h ss w1 ! j = None"
    proof (intro allI impI)
      fix j assume "j < i'"
      then have "Suc j < i" using Suc by simp
      with Cons.prems(3) have "responses E h (s # ss) w ! Suc j = None" by blast
      with snd1 show "responses E h ss w1 ! j = None" by simp
    qed
    from Cons.IH [OF 1 2 3] snd1 r Suc show ?thesis
      by (auto simp add: sends_def split: prod.splits)
  qed
qed

lemma sendSeq_all_succeed:
  "(\<forall>j<length ss. responses E h ss w ! j = None) \<Longrightarrow>
   fst (sendSeq E h ss w) = sends h ss \<and> fst (snd (sendSeq E h ss w)) = None"
proof (induction ss arbitrary: w)
  case Nil
  then show ?case by (simp add: sends_def)
next
  case (Cons s ss)
  obtain r w1 where snd1: "cmd_SendAndCheckResp E (cmd h) (cp s) (exp s) w = (r, w1)"
    by (cases "cmd_SendAndCheckResp E (cmd h) (cp s) (exp s) w")
  from Cons.prems snd1 have r: "r = None" by force
  have "\<forall>j<length ss. responses E h ss w1 ! j = None"
  proof (intro allI impI)
    fix j assume "j < length ss"
    then have "Suc j < length (s # ss)" by simp
    with Cons.prems have "responses E h (s # ss) w ! Suc j = None" by blast
    with snd1 show "responses E h ss w1 ! j = None" by simp
  qed
  from Cons.IH [OF this] snd1 r show ?case
    by (auto simp add: sends_def split: prod.splits)
qed

lemma sendSeq_prefix:
  "\<exists>n\<le>length ss. fst (sendSeq E h ss w) = sends h (take n ss) \<and>
     (\<forall>j. Suc j < n \<longrightarrow> responses E h ss w ! j = None)"
proof (induction ss arbitrary: w)
  case Nil
  then show ?case by (simp add: sends_def)
next
  case (Cons s ss)
  obtain r w1 where snd1: "cmd_SendAndCheckResp E (cmd h) (cp s) (exp s) w = (r, w1)"
    by (cases "cmd_SendAndCheckResp E (cmd h) (cp s) (exp s) w")
  show ?case
  proof (cases r)
    case (Some e)
    with snd1 have "fst (sendSeq E h (s # ss) w) = sends h (take 1 (s # ss))"
      by (simp add: sends_def)
    then show ?thesis by (intro exI [of _ 1]) simp
  next
    case None
    from Cons.IH [of w1] obtain n where n: "n \<le> length ss"
      "fst (sendSeq E h ss w1) = sends h (take n ss)"
      "\<forall>j. Suc j < n \<longrightarrow> responses E h ss w1 ! j = None" by blast
    from n(2) snd1 None have "fst (sendSeq E h (s # ss) w) = sends h (take (Suc n) (s # ss))"
      by (auto simp add: sends_def split: prod.splits)
    moreover have "\<forall>j. Suc j < Suc n \<longrightarrow> responses E h (s # ss) w ! j = None"
    proof (intro allI impI)
      fix j assume "Suc j < Suc n"
      then show "responses E h (s # ss) w ! j = None"
        using n(3) snd1 None by (cases j) simp_all
    qed
    ultimately show ?thesis using n(1) by (intro exI [of _ "Suc n"]) simp
  qed
qed


lemma responses_all_None:
  "(\<forall>r\<in>set (responses E h ss w). r = None) \<Longrightarrow> \<forall>j<length ss. responses E h ss w ! j = None"
  by (simp add: all_set_conv_all_nth)

text \<open>
  C2. Let step \<open>i\<close> (counted from 0 over the baseline list followed by the vendor list)
  be the first step that the Command Subsystem answers with an error. Then
  \<^verbatim>\<open>ResetDevice\<close> returns that error, and the calls it made are those of the first
  \<open>i + 1\<close> steps, one each, in order: step \<open>i\<close> is the \<open>(i + 1)\<close>-th and last call.
  No later step is sent, and when step \<open>i\<close> is a baseline step no vendor step is.
\<close>

theorem ResetDevice_first_failure:
  assumes "i < length (defaultResetSeq @ bcmResetSeq)"
    and "responses E h (defaultResetSeq @ bcmResetSeq) w ! i = Some e"
    and "\<forall>j<i. responses E h (defaultResetSeq @ bcmResetSeq) w ! j = None"
  shows "fst (snd (ResetDevice E h w)) = Some e \<and>
         fst (ResetDevice E h w) = sends h (take (Suc i) (defaultResetSeq @ bcmResetSeq)) \<and>
         length (fst (ResetDevice E h w)) = Suc i \<and>
         (i < length defaultResetSeq \<longrightarrow>
            fst (ResetDevice E h w) = sends h (take (Suc i) defaultResetSeq))"
proof -
  from sendSeq_first_failure [OF assms]
  have run: "fst (ResetDevice E h w) = sends h (take (Suc i) (defaultResetSeq @ bcmResetSeq))"
    and res: "fst (snd (ResetDevice E h w)) = Some e"
    by (simp_all add: ResetDevice_sendSeq)
  from run assms(1) have "length (fst (ResetDevice E h w)) = Suc i"
    by (simp add: sends_def)
  moreover from run have "i < length defaultResetSeq \<longrightarrow>
      fst (ResetDevice E h w) = sends h (take (Suc i) defaultResetSeq)"
    by simp
  ultimately show ?thesis using run res by blast
qed

theorem ResetDevice_first_failure_witness:
  "responses (fakeEnv (\<lambda>i. True) 2 (\<lambda>k. ([], 0, None))) fakeHCI
      (defaultResetSeq @ bcmResetSeq) 0 ! 0 = None \<and>
   responses (fakeEnv (\<lambda>i. True) 2 (\<lambda>k. ([], 0, None))) fakeHCI
      (defaultResetSeq @ bcmResetSeq) 0 ! 1 = Some (Errorf ''unexpected response'') \<and>
   fst (snd (ResetDevice (fakeEnv (\<lambda>i. True) 2 (\<lambda>k. ([], 0, None))) fakeHCI 0))
     = Some (Errorf ''unexpected response'') \<and>
   fst (ResetDevice (fakeEnv (\<lambda>i. True) 2 (\<lambda>k. ([], 0, None))) fakeHCI 0)
     = [CallSendAndCheckResp (Ref 10) Reset [0x00],
        CallSendAndCheckResp (Ref 10) (SetEventMask 0x3dbff807fffbffff) [0x00]] \<and>
   length (fst (ResetDevice (fakeEnv (\<lambda>i. True) 2 (\<lambda>k. ([], 0, None))) fakeHCI 0)) = 2"
proof -
  have r: "responses (fakeEnv (\<lambda>i. True) 2 (\<lambda>k. ([], 0, None))) fakeHCI
      (defaultResetSeq @ bcmResetSeq) 0 =
      [None, Some (Errorf ''unexpected response''), None, None, None, None, None, None, None,
       None, None, None]"
    by (simp add: defaultResetSeq_def bcmResetSeq_def fakeEnv_def)
  have 1: "(1::nat) < length (defaultResetSeq @ bcmResetSeq)"
    by (simp add: defaultResetSeq_def bcmResetSeq_def)
  have 2: "responses (fakeEnv (\<lambda>i. True) 2 (\<lambda>k. ([], 0, None))) fakeHCI
      (defaultResetSeq @ bcmResetSeq) 0 ! 1 = Some (Errorf ''unexpected response'')"
    by (simp add: r)
  have 3: "\<forall>j<1. responses (fakeEnv (\<lambda>i. True) 2 (\<lambda>k. ([], 0, None))) fakeHCI
      (defaultResetSeq @ bcmResetSeq) 0 ! j = None"
    by (simp add: r)
  from ResetDevice_first_failure [OF 1 2 3] r show ?thesis
    by (simp add: sends_def defaultResetSeq_def expSuccess_def fakeHCI_def)
qed

text \<open>
  C3. The calls of \<^verbatim>\<open>ResetDevice\<close> are always those of a front part of the baseline
  list followed by the vendor list, one call per step, in list order, and a step is sent
  only when every step before it was answered with success; so a vendor step is sent
  only after all baseline steps succeeded. When every step is answered with success,
  \<^verbatim>\<open>ResetDevice\<close> returns nil after the calls of all baseline steps followed by all
  vendor steps.
\<close>

theorem ResetDevice_in_order:
  "(\<exists>n\<le>length (defaultResetSeq @ bcmResetSeq).
      fst (ResetDevice E h w) = sends h (take n (defaultResetSeq @ bcmResetSeq)) \<and>
      (\<forall>j. Suc j < n \<longrightarrow> responses E h (defaultResetSeq @ bcmResetSeq) w ! j = None)) \<and>
   (length defaultResetSeq < length (fst (ResetDevice E h w)) \<longrightarrow>
      (\<forall>j<length defaultResetSeq. responses E h (defaultResetSeq @ bcmResetSeq) w ! j = None)) \<and>
   ((\<forall>r\<in>set (responses E h (defaultResetSeq @ bcmResetSeq) w). r = None) \<longrightarrow>
      fst (ResetDevice E h w) = sends h defaultResetSeq @ sends h bcmResetSeq \<and>
      fst (snd (ResetDevice E h w)) = None)"
proof -
  let ?steps = "defaultResetSeq @ bcmResetSeq"
  from sendSeq_prefix [of ?steps E h w] obtain n where n: "n \<le> length ?steps"
    "fst (ResetDevice E h w) = sends h (take n ?steps)"
    "\<forall>j. Suc j < n \<longrightarrow> responses E h ?steps w ! j = None"
    by (auto simp add: ResetDevice_sendSeq)
  from n(1,2) have len: "length (fst (ResetDevice E h w)) = n"
    by (simp add: sends_def)
  have vendor: "length defaultResetSeq < length (fst (ResetDevice E h w)) \<longrightarrow>
      (\<forall>j<length defaultResetSeq. responses E h ?steps w ! j = None)"
    using n(3) len by auto
  have ok: "(\<forall>r\<in>set (responses E h ?steps w). r = None) \<longrightarrow>
      fst (ResetDevice E h w) = sends h defaultResetSeq @ sends h bcmResetSeq \<and>
      fst (snd (ResetDevice E h w)) = None"
  proof
    assume "\<forall>r\<in>set (responses E h ?steps w). r = None"
    from sendSeq_all_succeed [OF responses_all_None [OF this]]
    show "fst (ResetDevice E h w) = sends h defaultResetSeq @ sends h bcmResetSeq \<and>
      fst (snd (ResetDevice E h w)) = None"
      by (simp add: ResetDevice_sendSeq sends_def)
  qed
  from n vendor ok show ?thesis by blast
qed

theorem ResetDevice_in_order_witness:
  "responses (fakeEnv (\<lambda>i. True) 0 (\<lambda>k. ([], 0, None))) fakeHCI
      (defaultResetSeq @ bcmResetSeq) 0 = replicate 12 None \<and>
   fst (ResetDevice (fakeEnv (\<lambda>i. True) 0 (\<lambda>k. ([], 0, None))) fakeHCI 0)
     = sends fakeHCI defaultResetSeq @ sends fakeHCI bcmResetSeq \<and>
   fst (snd (ResetDevice (fakeEnv (\<lambda>i. True) 0 (\<lambda>k. ([], 0, None))) fakeHCI 0)) = None \<and>
   length (fst (ResetDevice (fakeEnv (\<lambda>i. True) 0 (\<lambda>k. ([], 0, None))) fakeHCI 0)) = 12"
proof -
  have r: "responses (fakeEnv (\<lambda>i. True) 0 (\<lambda>k. ([], 0, None))) fakeHCI
      (defaultResetSeq @ bcmResetSeq) 0 =
      [None, None, None, None, None, None, None, None, None, None, None, None]"
    by (simp add: defaultResetSeq_def bcmResetSeq_def fakeEnv_def)
  then have all: "\<forall>r\<in>set (responses (fakeEnv (\<lambda>i. True) 0 (\<lambda>k. ([], 0, None))) fakeHCI
      (defaultResetSeq @ bcmResetSeq) 0). r = None"
    by simp
  have rep: "replicate 12 (None :: error option) =
      [None, None, None, None, None, None, None, None, None, None, None, None]"
    by (simp add: numeral_eq_Suc)
  from ResetDevice_in_order [of "fakeEnv (\<lambda>i. True) 0 (\<lambda>k. ([], 0, None))" fakeHCI 0] all
  have "fst (ResetDevice (fakeEnv (\<lambda>i. True) 0 (\<lambda>k. ([], 0, None))) fakeHCI 0)
     = sends fakeHCI defaultResetSeq @ sends fakeHCI bcmResetSeq \<and>
   fst (snd (ResetDevice (fakeEnv (\<lambda>i. True) 0 (\<lambda>k. ([], 0, None))) fakeHCI 0)) = None"
    by blast
  then show ?thesis using r rep
    by (simp add: sends_def defaultResetSeq_def bcmResetSeq_def)
qed

subsection \<open>Construction\<close>

lemma registrations_append [simp]:
  "registrations (xs @ ys) = registrations xs @ registrations ys"
  by (induction xs rule: registrations.induct) simp_all

lemma registrations_logErr [simp]: "registrations (logErr err b) = []"
  by (simp add: logErr_def split: option.splits)

lemma registrations_handlePacket: "registrations (fst (handlePacket E h b w)) = []"
  by (auto simp add: handlePacket_def handleCmd_def Let_def split: prod.splits outcome.splits)

lemma registrations_mainLoop_iter: "registrations (fst (mainLoop_iter k E h b w)) = []"
proof (induction k arbitrary: b w)
  case 0
  then show ?case by simp
next
  case (Suc k)
  obtain dat n err w1 where rd: "dev_Read E (dev h) b w = ((dat, n, err), w1)"
    by (metis prod_cases3 surj_pair)
  obtain tr1 out1 w2 where rec: "mainLoop_iter k E h (write_buf dat b) w1 = (tr1, out1, w2)"
    by (metis prod_cases3)
  from Suc.IH [of "write_buf dat b" w1] rec have "registrations tr1 = []" by simp
  with rd rec show ?case by (simp add: Let_def split: option.splits)
qed

lemma registrations_sendSeq: "registrations (fst (sendSeq E h ss w)) = []"
proof (induction ss arbitrary: w)
  case Nil
  then show ?case by simp
next
  case (Cons s ss)
  obtain r w1 where snd1: "cmd_SendAndCheckResp E (cmd h) (cp s) (exp s) w = (r, w1)"
    by (cases "cmd_SendAndCheckResp E (cmd h) (cp s) (exp s) w")
  obtain tr1 r1 w2 where rec: "sendSeq E h ss w1 = (tr1, r1, w2)"
    by (metis prod_cases3)
  from Cons.IH [of w1] rec have "registrations tr1 = []" by simp
  with snd1 rec show ?case by (simp split: option.splits)
qed

lemma registrations_ResetDevice: "registrations (fst (ResetDevice E h w)) = []"
proof -
  obtain tr1 r1 w1 where a: "sendSeq E h defaultResetSeq w = (tr1, r1, w1)"
    by (metis prod_cases3)
  obtain tr2 r2 w2 where b: "sendSeq E h bcmResetSeq w1 = (tr2, r2, w2)"
    by (metis prod_cases3)
  from registrations_sendSeq [of E h defaultResetSeq w] a have "registrations tr1 = []" by simp
  moreover from registrations_sendSeq [of E h bcmResetSeq w1] b have "registrations tr2 = []" by simp
  ultimately show ?thesis using a b
    by (simp add: ResetDevice_def split: option.splits)
qed

lemma NewHCI_open_trace:
  assumes "NewHCI_open E l m d w = (tr, Some h, w')"
  shows "tr = [CallNewCmd d l, CallNewL2CAP (cmd h) d l m, CallNewEvent l,
       CallHandleEvent (evt h) (event_LEMeta E) (L2C_HandleLEMeta (l2c h)),
       CallHandleEvent (evt h) (event_DisconnectionComplete E)
         (L2C_HandleDisconnectionComplete (l2c h)),
       CallHandleEvent (evt h) (event_NumberOfCompletedPkts E)
         (L2C_HandleNumberOfCompletedPkts (l2c h)),
       CallHandleEvent (evt h) (event_CommandComplete E) (Cmd_HandleComplete (cmd h)),
       CallHandleEvent (evt h) (event_CommandStatus E) (Cmd_HandleStatus (cmd h))]"
  using assms by (auto simp add: NewHCI_open_def Let_def split: prod.splits)

lemma NewHCI_open_hci:
  "\<exists>h. fst (snd (NewHCI_open E l m d w)) = Some h \<and>
     dev h = d \<and> logger h = NilRef \<and>
     cmd h = fst (cmd_NewCmd E d l w) \<and>
     l2c h = fst (l2cap_NewL2CAP E (cmd h) d l m (snd (cmd_NewCmd E d l w))) \<and>
     evt h = fst (event_NewEvent E l
               (snd (l2cap_NewL2CAP E (cmd h) d l m (snd (cmd_NewCmd E d l w)))))"
  by (simp add: NewHCI_open_def Let_def split: prod.splits)

lemma NewHCI_Some:
  assumes "NewHCI E l m w = (tr, Some h, w')"
  shows "\<exists>d wd pre tr1. tr = pre @ tr1 \<and>
           (pre = [CallNewSocket 1] \<or> pre = [CallNewSocket 1, CallNewSocket 0]) \<and>
           NewHCI_open E l m d wd = (tr1, Some h, w')"
proof -
  obtain d1 e1 w1 where s1: "device_NewSocket E 1 w = ((d1, e1), w1)"
    by (metis surj_pair)
  obtain d0 e0 w0 where s0: "device_NewSocket E 0 w1 = ((d0, e0), w0)"
    by (metis surj_pair)
  obtain ta ra wa where oa: "NewHCI_open E l m d1 w1 = (ta, ra, wa)"
    by (metis prod_cases3)
  obtain tb rb wb where ob: "NewHCI_open E l m d0 w0 = (tb, rb, wb)"
    by (metis prod_cases3)
  show ?thesis
  proof (cases "e1 = None")
    case True
    with assms s1 oa have "tr = [CallNewSocket 1] @ ta" "ra = Some h" "wa = w'"
      by (simp_all add: NewHCI_def)
    with oa show ?thesis by blast
  next
    case False
    with assms s1 s0 have e0: "e0 = None"
      by (auto simp add: NewHCI_def split: if_splits)
    with False assms s1 s0 ob
    have "tr = [CallNewSocket 1, CallNewSocket 0] @ tb" "rb = Some h" "wb = w'"
      by (auto simp add: NewHCI_def)
    with ob show ?thesis by blast
  qed
qed

lemma NewHCI_open_world:
  assumes "NewHCI_open E l m d w = (tr, Some h, w')"
  shows "\<exists>w2. evt h = fst (event_NewEvent E l w2) \<and>
     w' = event_HandleEvent E (evt h) (event_CommandStatus E) (Cmd_HandleStatus (cmd h))
           (event_HandleEvent E (evt h) (event_CommandComplete E) (Cmd_HandleComplete (cmd h))
             (event_HandleEvent E (evt h) (event_NumberOfCompletedPkts E)
                (L2C_HandleNumberOfCompletedPkts (l2c h))
               (event_HandleEvent E (evt h) (event_DisconnectionComplete E)
                  (L2C_HandleDisconnectionComplete (l2c h))
                 (event_HandleEvent E (evt h) (event_LEMeta E) (L2C_HandleLEMeta (l2c h))
                   (snd (event_NewEvent E l w2))))))"
proof -
  obtain c w1 where c: "cmd_NewCmd E d l w = (c, w1)"
    by (cases "cmd_NewCmd E d l w")
  obtain p w2 where p: "l2cap_NewL2CAP E c d l m w1 = (p, w2)"
    by (cases "l2cap_NewL2CAP E c d l m w1")
  obtain e w3 where e: "event_NewEvent E l w2 = (e, w3)"
    by (cases "event_NewEvent E l w2")
  from assms c p e show ?thesis
    by (intro exI [of _ w2]) (auto simp add: NewHCI_open_def Let_def)
qed

lemma handlePacket_keeps:
  assumes "\<And>r b w. v (snd (l2c_HandleL2CAP E r b w)) = v w"
    and "\<And>r b w. v (snd (evt_Dispatch E r b w)) = v w"
  shows "v (snd (snd (handlePacket E h b w))) = v w"
proof -
  have a: "v w1 = v w" if "l2c_HandleL2CAP E (l2c h) (drop 1 b) w = (err, w1)" for err w1
    using assms(1) [of "l2c h" "drop 1 b" w] that by simp
  have e: "v w1 = v w" if "evt_Dispatch E (evt h) (drop 1 b) w = (err, w1)" for err w1
    using assms(2) [of "evt h" "drop 1 b" w] that by simp
  show ?thesis
    by (auto simp add: handlePacket_def Let_def a e split: prod.splits outcome.splits)
qed

lemma mainLoop_iter_keeps:
  assumes "\<And>r b w. v (snd (dev_Read E r b w)) = v w"
  shows "v (snd (snd (mainLoop_iter k E h b w))) = v w"
proof (induction k arbitrary: b w)
  case 0
  then show ?case by simp
next
  case (Suc k)
  obtain dat n err w1 where rd: "dev_Read E (dev h) b w = ((dat, n, err), w1)"
    by (metis prod_cases3 surj_pair)
  with assms [of "dev h" b w] have w1: "v w1 = v w" by simp
  obtain tr1 out1 w2 where rec: "mainLoop_iter k E h (write_buf dat b) w1 = (tr1, out1, w2)"
    by (metis prod_cases3)
  with Suc.IH [of "write_buf dat b" w1] have "v w2 = v w1" by simp
  with w1 rd rec show ?case by (simp add: Let_def split: option.splits)
qed

lemma sendSeq_keeps:
  assumes "\<And>r c x w. v (snd (cmd_SendAndCheckResp E r c x w)) = v w"
  shows "v (snd (snd (sendSeq E h ss w))) = v w"
proof (induction ss arbitrary: w)
  case Nil
  then show ?case by simp
next
  case (Cons s ss)
  obtain r w1 where snd1: "cmd_SendAndCheckResp E (cmd h) (cp s) (exp s) w = (r, w1)"
    by (cases "cmd_SendAndCheckResp E (cmd h) (cp s) (exp s) w")
  with assms [of "cmd h" "cp s" "exp s" w] have w1: "v w1 = v w" by simp
  obtain tr1 r1 w2 where rec: "sendSeq E h ss w1 = (tr1, r1, w2)"
    by (metis prod_cases3)
  with Cons.IH [of w1] have "v w2 = v w1" by simp
  with w1 snd1 rec show ?case by (simp split: option.splits)
qed

lemma ResetDevice_keeps:
  assumes "\<And>r c x w. v (snd (cmd_SendAndCheckResp E r c x w)) = v w"
  shows "v (snd (snd (ResetDevice E h w))) = v w"
  using sendSeq_keeps [of v E h "defaultResetSeq @ bcmResetSeq" w, OF assms]
  by (simp add: ResetDevice_sendSeq)

text \<open>
  C8. Let \<open>tbl w e\<close> be the routing table of the Event object \<open>e\<close> in the world \<open>w\<close>.
  The Event Subsystem is outside this file; of it the theorem takes that
  \<^verbatim>\<open>HandleEvent\<close> binds the code to the handler in the table of its receiver, that
  \<^verbatim>\<open>NewEvent\<close> returns an object with an empty table, and that \<^verbatim>\<open>Dispatch\<close>, the L2CAP
  handler, the device's read and \<^verbatim>\<open>SendAndCheckResp\<close> leave the tables as they are; the
  five event codes are distinct constants. Then, when \<^verbatim>\<open>NewHCI\<close> returns an instance,
  it has made exactly five registrations, and the table of the instance's Event
  Subsystem is exactly: LE Meta-Event, Disconnection-Complete and
  Number-of-Completed-Packets bound to the L2CAP handler's callbacks, Command-Complete
  and Command-Status bound to the Command Subsystem's callbacks, five codes with one
  handler each. \<^verbatim>\<open>handlePacket\<close>, \<^verbatim>\<open>mainLoop\<close> and \<^verbatim>\<open>ResetDevice\<close> register nothing
  and leave every table as it is.
\<close>

theorem NewHCI_registers_five:
  assumes run: "NewHCI E l m w = (tr, Some h, w')"
    and codes: "distinct [event_LEMeta E, event_DisconnectionComplete E,
           event_NumberOfCompletedPkts E, event_CommandComplete E, event_CommandStatus E]"
    and bind: "\<And>e k f w. tbl (event_HandleEvent E e k f w) e = (tbl w e)(k \<mapsto> f)"
    and fresh: "\<And>l w. tbl (snd (event_NewEvent E l w)) (fst (event_NewEvent E l w)) = Map.empty"
    and keep_l2c: "\<And>r b w. tbl (snd (l2c_HandleL2CAP E r b w)) = tbl w"
    and keep_evt: "\<And>r b w. tbl (snd (evt_Dispatch E r b w)) = tbl w"
    and keep_dev: "\<And>r b w. tbl (snd (dev_Read E r b w)) = tbl w"
    and keep_cmd: "\<And>r c x w. tbl (snd (cmd_SendAndCheckResp E r c x w)) = tbl w"
  shows "registrations tr =
           [(evt h, event_LEMeta E, L2C_HandleLEMeta (l2c h)),
            (evt h, event_DisconnectionComplete E, L2C_HandleDisconnectionComplete (l2c h)),
            (evt h, event_NumberOfCompletedPkts E, L2C_HandleNumberOfCompletedPkts (l2c h)),
            (evt h, event_CommandComplete E, Cmd_HandleComplete (cmd h)),
            (evt h, event_CommandStatus E, Cmd_HandleStatus (cmd h))] \<and>
         tbl w' (evt h) =
           [event_LEMeta E \<mapsto> L2C_HandleLEMeta (l2c h),
            event_DisconnectionComplete E \<mapsto> L2C_HandleDisconnectionComplete (l2c h),
            event_NumberOfCompletedPkts E \<mapsto> L2C_HandleNumberOfCompletedPkts (l2c h),
            event_CommandComplete E \<mapsto> Cmd_HandleComplete (cmd h),
            event_CommandStatus E \<mapsto> Cmd_HandleStatus (cmd h)] \<and>
         dom (tbl w' (evt h)) =
           {event_LEMeta E, event_DisconnectionComplete E, event_NumberOfCompletedPkts E,
            event_CommandComplete E, event_CommandStatus E} \<and>
         card (dom (tbl w' (evt h))) = 5 \<and>
         tbl w' (evt h) (event_LEMeta E) = Some (L2C_HandleLEMeta (l2c h)) \<and>
         tbl w' (evt h) (event_DisconnectionComplete E) =
           Some (L2C_HandleDisconnectionComplete (l2c h)) \<and>
         tbl w' (evt h) (event_NumberOfCompletedPkts E) =
           Some (L2C_HandleNumberOfCompletedPkts (l2c h)) \<and>
         tbl w' (evt h) (event_CommandComplete E) = Some (Cmd_HandleComplete (cmd h)) \<and>
         tbl w' (evt h) (event_CommandStatus E) = Some (Cmd_HandleStatus (cmd h)) \<and>
         tbl (snd (snd (handlePacket E h b wa))) = tbl wa \<and>
         tbl (snd (snd (mainLoop fuel E h wb))) = tbl wb \<and>
         tbl (snd (snd (ResetDevice E h wc))) = tbl wc \<and>
         registrations (fst (handlePacket E h b wa)) = [] \<and>
         registrations (fst (mainLoop fuel E h wb)) = [] \<and>
         registrations (fst (ResetDevice E h wc)) = []"
proof -
  from NewHCI_Some [OF run] obtain d wd pre tr1 where tr: "tr = pre @ tr1"
    and pre: "pre = [CallNewSocket 1] \<or> pre = [CallNewSocket 1, CallNewSocket 0]"
    and op: "NewHCI_open E l m d wd = (tr1, Some h, w')"
    by blast
  from pre have "registrations pre = []" by auto
  with tr NewHCI_open_trace [OF op]
  have regs: "registrations tr =
           [(evt h, event_LEMeta E, L2C_HandleLEMeta (l2c h)),
            (evt h, event_DisconnectionComplete E, L2C_HandleDisconnectionComplete (l2c h)),
            (evt h, event_NumberOfCompletedPkts E, L2C_HandleNumberOfCompletedPkts (l2c h)),
            (evt h, event_CommandComplete E, Cmd_HandleComplete (cmd h)),
            (evt h, event_CommandStatus E, Cmd_HandleStatus (cmd h))]"
    by simp
  from NewHCI_open_world [OF op] obtain w2 where e: "evt h = fst (event_NewEvent E l w2)"
    and w': "w' = event_HandleEvent E (evt h) (event_CommandStatus E) (Cmd_HandleStatus (cmd h))
           (event_HandleEvent E (evt h) (event_CommandComplete E) (Cmd_HandleComplete (cmd h))
             (event_HandleEvent E (evt h) (event_NumberOfCompletedPkts E)
                (L2C_HandleNumberOfCompletedPkts (l2c h))
               (event_HandleEvent E (evt h) (event_DisconnectionComplete E)
                  (L2C_HandleDisconnectionComplete (l2c h))
                 (event_HandleEvent E (evt h) (event_LEMeta E) (L2C_HandleLEMeta (l2c h))
                   (snd (event_NewEvent E l w2))))))"
    by blast
  from fresh [of l w2] e have empty: "tbl (snd (event_NewEvent E l w2)) (evt h) = Map.empty"
    by simp
  have table: "tbl w' (evt h) =
           [event_LEMeta E \<mapsto> L2C_HandleLEMeta (l2c h),
            event_DisconnectionComplete E \<mapsto> L2C_HandleDisconnectionComplete (l2c h),
            event_NumberOfCompletedPkts E \<mapsto> L2C_HandleNumberOfCompletedPkts (l2c h),
            event_CommandComplete E \<mapsto> Cmd_HandleComplete (cmd h),
            event_CommandStatus E \<mapsto> Cmd_HandleStatus (cmd h)]"
    by (simp only: w' bind empty)
  have dom: "dom (tbl w' (evt h)) =
           {event_LEMeta E, event_DisconnectionComplete E, event_NumberOfCompletedPkts E,
            event_CommandComplete E, event_CommandStatus E}"
    by (auto simp add: table)
  from codes have card: "card (dom (tbl w' (evt h))) = 5"
    by (simp add: dom)
  from codes have l1: "tbl w' (evt h) (event_LEMeta E) = Some (L2C_HandleLEMeta (l2c h))"
    and l2: "tbl w' (evt h) (event_DisconnectionComplete E) =
           Some (L2C_HandleDisconnectionComplete (l2c h))"
    and l3: "tbl w' (evt h) (event_NumberOfCompletedPkts E) =
           Some (L2C_HandleNumberOfCompletedPkts (l2c h))"
    and l4: "tbl w' (evt h) (event_CommandComplete E) = Some (Cmd_HandleComplete (cmd h))"
    and l5: "tbl w' (evt h) (event_CommandStatus E) = Some (Cmd_HandleStatus (cmd h))"
    by (auto simp add: table)
  have hp: "tbl (snd (snd (handlePacket E h b wa))) = tbl wa"
    by (rule handlePacket_keeps [of tbl E, OF keep_l2c keep_evt])
  have ml: "tbl (snd (snd (mainLoop fuel E h wb))) = tbl wb"
    unfolding mainLoop_def by (rule mainLoop_iter_keeps [of tbl E, OF keep_dev])
  have rd: "tbl (snd (snd (ResetDevice E h wc))) = tbl wc"
    by (rule ResetDevice_keeps [of tbl E, OF keep_cmd])
  have rml: "registrations (fst (mainLoop fuel E h wb)) = []"
    by (simp add: mainLoop_def registrations_mainLoop_iter)
  show ?thesis
    by (intro conjI regs table dom card l1 l2 l3 l4 l5 hp ml rd rml
        registrations_handlePacket registrations_ResetDevice)
qed


theorem NewHCI_registers_five_witness:
  "NewHCI fakeEventEnv NilRef 8 [] =
     ([CallNewSocket 1, CallNewCmd (Ref 2) NilRef, CallNewL2CAP (Ref 10) (Ref 2) NilRef 8,
       CallNewEvent NilRef,
       CallHandleEvent (Ref 12) 0x3E (L2C_HandleLEMeta (Ref 11)),
       CallHandleEvent (Ref 12) 0x05 (L2C_HandleDisconnectionComplete (Ref 11)),
       CallHandleEvent (Ref 12) 0x13 (L2C_HandleNumberOfCompletedPkts (Ref 11)),
       CallHandleEvent (Ref 12) 0x0E (Cmd_HandleComplete (Ref 10)),
       CallHandleEvent (Ref 12) 0x0F (Cmd_HandleStatus (Ref 10))],
      Some fakeHCI,
      [(0x0F, Cmd_HandleStatus (Ref 10)), (0x0E, Cmd_HandleComplete (Ref 10)),
       (0x13, L2C_HandleNumberOfCompletedPkts (Ref 11)),
       (0x05, L2C_HandleDisconnectionComplete (Ref 11)),
       (0x3E, L2C_HandleLEMeta (Ref 11))]) \<and>
   map_of [(0x0F, Cmd_HandleStatus (Ref 10)), (0x0E, Cmd_HandleComplete (Ref 10)),
       (0x13, L2C_HandleNumberOfCompletedPkts (Ref 11)),
       (0x05, L2C_HandleDisconnectionComplete (Ref 11)),
       (0x3E, L2C_HandleLEMeta (Ref 11))] =
     [0x3E \<mapsto> L2C_HandleLEMeta (Ref 11), 0x05 \<mapsto> L2C_HandleDisconnectionComplete (Ref 11),
      0x13 \<mapsto> L2C_HandleNumberOfCompletedPkts (Ref 11), 0x0E \<mapsto> Cmd_HandleComplete (Ref 10),
      (0x0F :: int) \<mapsto> Cmd_HandleStatus (Ref 10)] \<and>
   card (dom (map_of [(0x0F :: int, Cmd_HandleStatus (Ref 10)), (0x0E, Cmd_HandleComplete (Ref 10)),
       (0x13, L2C_HandleNumberOfCompletedPkts (Ref 11)),
       (0x05, L2C_HandleDisconnectionComplete (Ref 11)),
       (0x3E, L2C_HandleLEMeta (Ref 11))])) = 5 \<and>
   map_of (snd (snd (handlePacket fakeEventEnv fakeHCI [0x04, 0x0E, 0x01]
      [(0x0E, Cmd_HandleComplete (Ref 10))]))) = map_of [(0x0E, Cmd_HandleComplete (Ref 10))]"
proof -
  have run: "NewHCI fakeEventEnv NilRef 8 [] =
     ([CallNewSocket 1, CallNewCmd (Ref 2) NilRef, CallNewL2CAP (Ref 10) (Ref 2) NilRef 8,
       CallNewEvent NilRef,
       CallHandleEvent (Ref 12) 0x3E (L2C_HandleLEMeta (Ref 11)),
       CallHandleEvent (Ref 12) 0x05 (L2C_HandleDisconnectionComplete (Ref 11)),
       CallHandleEvent (Ref 12) 0x13 (L2C_HandleNumberOfCompletedPkts (Ref 11)),
       CallHandleEvent (Ref 12) 0x0E (Cmd_HandleComplete (Ref 10)),
       CallHandleEvent (Ref 12) 0x0F (Cmd_HandleStatus (Ref 10))],
      Some fakeHCI,
      [(0x0F, Cmd_HandleStatus (Ref 10)), (0x0E, Cmd_HandleComplete (Ref 10)),
       (0x13, L2C_HandleNumberOfCompletedPkts (Ref 11)),
       (0x05, L2C_HandleDisconnectionComplete (Ref 11)),
       (0x3E, L2C_HandleLEMeta (Ref 11))])"
    by (simp add: NewHCI_def NewHCI_open_def fakeEventEnv_def fakeHCI_def Let_def)
  have codes: "distinct [event_LEMeta fakeEventEnv, event_DisconnectionComplete fakeEventEnv,
      event_NumberOfCompletedPkts fakeEventEnv, event_CommandComplete fakeEventEnv,
      event_CommandStatus fakeEventEnv]"
    by (simp add: fakeEventEnv_def)
  have bind: "(\<lambda>w e. map_of w) (event_HandleEvent fakeEventEnv e k f w) e
      = ((\<lambda>w e. map_of w) w e)(k \<mapsto> f)" for e k f w
    by (simp add: fakeEventEnv_def)
  have fresh: "(\<lambda>w e. map_of w) (snd (event_NewEvent fakeEventEnv l w))
      (fst (event_NewEvent fakeEventEnv l w)) = Map.empty" for l w
    by (simp add: fakeEventEnv_def)
  have k1: "(\<lambda>w e. map_of w) (snd (l2c_HandleL2CAP fakeEventEnv r b w)) = (\<lambda>w e. map_of w) w"
    for r b w by (simp add: fakeEventEnv_def)
  have k2: "(\<lambda>w e. map_of w) (snd (evt_Dispatch fakeEventEnv r b w)) = (\<lambda>w e. map_of w) w"
    for r b w by (simp add: fakeEventEnv_def)
  have k3: "(\<lambda>w e. map_of w) (snd (dev_Read fakeEventEnv r b w)) = (\<lambda>w e. map_of w) w"
    for r b w by (simp add: fakeEventEnv_def)
  have k4: "(\<lambda>w e. map_of w) (snd (cmd_SendAndCheckResp fakeEventEnv r c x w))
      = (\<lambda>w e. map_of w) w"
    for r c x w by (simp add: fakeEventEnv_def)
  from NewHCI_registers_five [of fakeEventEnv NilRef 8 "[]" _ fakeHCI _ "\<lambda>w e. map_of w"
      "[0x04, 0x0E, 0x01]" "[(0x0E, Cmd_HandleComplete (Ref 10))]",
      OF run codes bind fresh k1 k2 k3 k4]
  have "map_of [(0x0F, Cmd_HandleStatus (Ref 10)), (0x0E, Cmd_HandleComplete (Ref 10)),
       (0x13, L2C_HandleNumberOfCompletedPkts (Ref 11)),
       (0x05, L2C_HandleDisconnectionComplete (Ref 11)),
       (0x3E, L2C_HandleLEMeta (Ref 11))] =
     [0x3E \<mapsto> L2C_HandleLEMeta (Ref 11), 0x05 \<mapsto> L2C_HandleDisconnectionComplete (Ref 11),
      0x13 \<mapsto> L2C_HandleNumberOfCompletedPkts (Ref 11), 0x0E \<mapsto> Cmd_HandleComplete (Ref 10),
      (0x0F :: int) \<mapsto> Cmd_HandleStatus (Ref 10)]"
    and "card (dom (map_of [(0x0F :: int, Cmd_HandleStatus (Ref 10)),
       (0x0E, Cmd_HandleComplete (Ref 10)),
       (0x13, L2C_HandleNumberOfCompletedPkts (Ref 11)),
       (0x05, L2C_HandleDisconnectionComplete (Ref 11)),
       (0x3E, L2C_HandleLEMeta (Ref 11))])) = 5"
    and "(\<lambda>e :: ref. map_of (snd (snd (handlePacket fakeEventEnv fakeHCI [0x04, 0x0E, 0x01]
      [(0x0E, Cmd_HandleComplete (Ref 10))])))) = (\<lambda>e. map_of [(0x0E, Cmd_HandleComplete (Ref 10))])"
    by (simp_all add: fakeEventEnv_def fakeHCI_def)
  then show ?thesis using run by (simp add: fun_eq_iff)
qed

text \<open>
  C10. \<^verbatim>\<open>NewHCI\<close> opens socket 1 first and socket 0 only when socket 1 failed. When both
  fail it returns nil. When one opens it returns an instance whose \<^verbatim>\<open>dev\<close> is the socket
  that opened and whose \<^verbatim>\<open>cmd\<close>, \<^verbatim>\<open>l2c\<close> and \<^verbatim>\<open>evt\<close> are what \<^verbatim>\<open>cmd.NewCmd\<close>,
  \<^verbatim>\<open>l2cap.NewL2CAP\<close> and \<^verbatim>\<open>event.NewEvent\<close> returned, called in this order.
\<close>

theorem NewHCI_nil_iff_no_socket:
  assumes "device_NewSocket E 1 w = ((d1, e1), w1)"
    and "device_NewSocket E 0 w1 = ((d0, e0), w0)"
  shows "(e1 \<noteq> None \<and> e0 \<noteq> None \<longrightarrow>
            NewHCI E l m w = ([CallNewSocket 1, CallNewSocket 0], None, w0)) \<and>
         (e1 = None \<or> e0 = None \<longrightarrow>
            (\<exists>h. fst (snd (NewHCI E l m w)) = Some h \<and>
               dev h = (if e1 = None then d1 else d0) \<and>
               cmd h = fst (cmd_NewCmd E (dev h) l (if e1 = None then w1 else w0)) \<and>
               l2c h = fst (l2cap_NewL2CAP E (cmd h) (dev h) l m
                         (snd (cmd_NewCmd E (dev h) l (if e1 = None then w1 else w0)))) \<and>
               evt h = fst (event_NewEvent E l
                         (snd (l2cap_NewL2CAP E (cmd h) (dev h) l m
                            (snd (cmd_NewCmd E (dev h) l (if e1 = None then w1 else w0)))))))) \<and>
         take 1 (fst (NewHCI E l m w)) = [CallNewSocket 1] \<and>
         (CallNewSocket 0 \<in> set (fst (NewHCI E l m w))) = (e1 \<noteq> None)"
proof -
  have nil: "e1 \<noteq> None \<and> e0 \<noteq> None \<longrightarrow>
      NewHCI E l m w = ([CallNewSocket 1, CallNewSocket 0], None, w0)"
    using assms by (auto simp add: NewHCI_def)
  have first: "e1 = None \<Longrightarrow>
      NewHCI E l m w = (CallNewSocket 1 # fst (NewHCI_open E l m d1 w1),
                        snd (NewHCI_open E l m d1 w1))"
    using assms(1) by (simp add: NewHCI_def split: prod.splits)
  have second: "e1 \<noteq> None \<Longrightarrow> e0 = None \<Longrightarrow>
      NewHCI E l m w = (CallNewSocket 1 # CallNewSocket 0 # fst (NewHCI_open E l m d0 w0),
                        snd (NewHCI_open E l m d0 w0))"
    using assms by (auto simp add: NewHCI_def split: prod.splits)
  have no0: "CallNewSocket 0 \<notin> set (fst (NewHCI_open E l m d wd))" for d wd
    by (simp add: NewHCI_open_def Let_def split: prod.splits)
  have some: "e1 = None \<or> e0 = None \<longrightarrow>
            (\<exists>h. fst (snd (NewHCI E l m w)) = Some h \<and>
               dev h = (if e1 = None then d1 else d0) \<and>
               cmd h = fst (cmd_NewCmd E (dev h) l (if e1 = None then w1 else w0)) \<and>
               l2c h = fst (l2cap_NewL2CAP E (cmd h) (dev h) l m
                         (snd (cmd_NewCmd E (dev h) l (if e1 = None then w1 else w0)))) \<and>
               evt h = fst (event_NewEvent E l
                         (snd (l2cap_NewL2CAP E (cmd h) (dev h) l m
                            (snd (cmd_NewCmd E (dev h) l (if e1 = None then w1 else w0)))))))"
  proof (cases "e1 = None")
    case True
    from NewHCI_open_hci [of E l m d1 w1] first [OF True] True show ?thesis
      by auto
  next
    case False
    show ?thesis
    proof
      assume "e1 = None \<or> e0 = None"
      with False have e0: "e0 = None" by blast
      from NewHCI_open_hci [of E l m d0 w0] second [OF False e0] False
      show "\<exists>h. fst (snd (NewHCI E l m w)) = Some h \<and>
               dev h = (if e1 = None then d1 else d0) \<and>
               cmd h = fst (cmd_NewCmd E (dev h) l (if e1 = None then w1 else w0)) \<and>
               l2c h = fst (l2cap_NewL2CAP E (cmd h) (dev h) l m
                         (snd (cmd_NewCmd E (dev h) l (if e1 = None then w1 else w0)))) \<and>
               evt h = fst (event_NewEvent E l
                         (snd (l2cap_NewL2CAP E (cmd h) (dev h) l m
                            (snd (cmd_NewCmd E (dev h) l (if e1 = None then w1 else w0))))))"
        by auto
    qed
  qed
  have order: "take 1 (fst (NewHCI E l m w)) = [CallNewSocket 1] \<and>
         (CallNewSocket 0 \<in> set (fst (NewHCI E l m w))) = (e1 \<noteq> None)"
  proof (cases "e1 = None")
    case True
    with first [OF True] no0 show ?thesis by simp
  next
    case False
    show ?thesis
    proof (cases "e0 = None")
      case True
      with second [OF False True] False show ?thesis by simp
    next
      case e0: False
      with nil False show ?thesis by simp
    qed
  qed
  from nil some order show ?thesis by blast
qed

theorem NewHCI_nil_iff_no_socket_witness:
  "NewHCI (fakeEnv (\<lambda>i. False) 0 (\<lambda>k. ([], 0, None))) NilRef 8 0
     = ([CallNewSocket 1, CallNewSocket 0], None, 2) \<and>
   fst (snd (NewHCI (fakeEnv (\<lambda>i. i = 0) 0 (\<lambda>k. ([], 0, None))) NilRef 8 0))
     = Some \<lparr>dev = Ref 1, logger = NilRef, cmd = Ref 10, evt = Ref 12, l2c = Ref 11\<rparr> \<and>
   fst (snd (NewHCI (fakeEnv (\<lambda>i. True) 0 (\<lambda>k. ([], 0, None))) NilRef 8 0)) = Some fakeHCI"
proof -
  have a1: "device_NewSocket (fakeEnv (\<lambda>i. False) 0 (\<lambda>k. ([], 0, None))) 1 0
      = ((NilRef, Some (Errorf ''no such device'')), 1)"
    and a0: "device_NewSocket (fakeEnv (\<lambda>i. False) 0 (\<lambda>k. ([], 0, None))) 0 1
      = ((NilRef, Some (Errorf ''no such device'')), 2)"
    by (simp_all add: fakeEnv_def)
  have b1: "device_NewSocket (fakeEnv (\<lambda>i. i = 0) 0 (\<lambda>k. ([], 0, None))) 1 0
      = ((NilRef, Some (Errorf ''no such device'')), 1)"
    and b0: "device_NewSocket (fakeEnv (\<lambda>i. i = 0) 0 (\<lambda>k. ([], 0, None))) 0 1
      = ((Ref 1, None), 2)"
    by (simp_all add: fakeEnv_def)
  have c1: "device_NewSocket (fakeEnv (\<lambda>i. True) 0 (\<lambda>k. ([], 0, None))) 1 0
      = ((Ref 2, None), 1)"
    and c0: "device_NewSocket (fakeEnv (\<lambda>i. True) 0 (\<lambda>k. ([], 0, None))) 0 1
      = ((Ref 1, None), 2)"
    by (simp_all add: fakeEnv_def)
  have rb: "fst (snd (NewHCI (fakeEnv (\<lambda>i. i = 0) 0 (\<lambda>k. ([], 0, None))) NilRef 8 0))
     = Some \<lparr>dev = Ref 1, logger = NilRef, cmd = Ref 10, evt = Ref 12, l2c = Ref 11\<rparr>"
    by (simp add: NewHCI_def NewHCI_open_def fakeEnv_def Let_def)
  have rc: "fst (snd (NewHCI (fakeEnv (\<lambda>i. True) 0 (\<lambda>k. ([], 0, None))) NilRef 8 0)) = Some fakeHCI"
    by (simp add: NewHCI_def NewHCI_open_def fakeEnv_def fakeHCI_def Let_def)
  from NewHCI_nil_iff_no_socket [OF a1 a0, of NilRef 8]
    NewHCI_nil_iff_no_socket [OF b1 b0, of NilRef 8]
    NewHCI_nil_iff_no_socket [OF c1 c0, of NilRef 8] rb rc
  show ?thesis by simp
qed

end
